theory Spec2Isabelle
  imports Complex_Main
begin

section \<open>Text primitives\<close>

text \<open>
  A Python string is a sequence of Unicode code points, and is modelled as the list of
  its code points; \<open>u\<close> gives the string of an ASCII literal. The built-in string
  methods that the engine uses are written out below, except \<open>lower\<close>, which
  consults the case tables of the Unicode database and is taken from the runtime (see
  the next section). Python floats are modelled as real numbers, Python ints as
  \<open>int\<close>, and the result of \<open>len\<close> as \<open>nat\<close>.
\<close>

type_synonym str = "nat list"

definition u :: "string \<Rightarrow> str" where
  "u s = map of_char s"

text \<open>
  The code points for which \<open>str.isspace\<close> holds; \<open>strip\<close> and \<open>split\<close> without
  arguments work on exactly these.
\<close>

definition is_space :: "nat \<Rightarrow> bool" where
  "is_space c = (c \<in> set [0x09, 0x0A, 0x0B, 0x0C, 0x0D, 0x1C, 0x1D, 0x1E, 0x1F, 0x20, 0x85, 0xA0,
                           0x1680, 0x2000, 0x2001, 0x2002, 0x2003, 0x2004, 0x2005, 0x2006, 0x2007,
                           0x2008, 0x2009, 0x200A, 0x2028, 0x2029, 0x202F, 0x205F, 0x3000])"

definition strip :: "str \<Rightarrow> str" where
  "strip s = rev (dropWhile is_space (rev (dropWhile is_space s)))"

definition startswith :: "str \<Rightarrow> str \<Rightarrow> bool" where
  "startswith s p = (take (length p) s = p)"

fun contains :: "str \<Rightarrow> str \<Rightarrow> bool" where
  "contains p [] = (p = [])"
| "contains p (c # cs) = (startswith (c # cs) p \<or> contains p cs)"

fun join :: "str \<Rightarrow> str list \<Rightarrow> str" where
  "join sep [] = []"
| "join sep [x] = x"
| "join sep (x # y # ys) = x @ sep @ join sep (y # ys)"

text \<open>\<open>s.split(d)\<close> for a one-character separator: the pieces between separators, empty ones kept.\<close>

fun split_acc :: "nat \<Rightarrow> str \<Rightarrow> str \<Rightarrow> str list" where
  "split_acc d cur [] = [rev cur]"
| "split_acc d cur (c # cs) =
     (if c = d then rev cur # split_acc d [] cs else split_acc d (c # cur) cs)"

definition split_on :: "nat \<Rightarrow> str \<Rightarrow> str list" where
  "split_on d s = split_acc d [] s"

definition newline :: nat where
  "newline = 0x0A"

text \<open>\<open>s.split()\<close>: the maximal runs of non-whitespace characters.\<close>

fun split_ws_acc :: "str \<Rightarrow> str \<Rightarrow> str list" where
  "split_ws_acc cur [] = (if cur = [] then [] else [rev cur])"
| "split_ws_acc cur (c # cs) =
     (if is_space c then (if cur = [] then split_ws_acc [] cs else rev cur # split_ws_acc [] cs)
      else split_ws_acc (c # cur) cs)"

definition split_ws :: "str \<Rightarrow> str list" where
  "split_ws s = split_ws_acc [] s"

definition count_char :: "nat \<Rightarrow> str \<Rightarrow> nat" where
  "count_char c s = length (filter (\<lambda>x. x = c) s)"

text \<open>The backslash, for writing the regular expressions of the source.\<close>

definition bs :: string where
  "bs = [CHR 0x5C]"

section \<open>External libraries\<close>

text \<open>
  The regular-expression engine, the YAML parser and the Unicode case tables behind
  \<open>str.lower\<close> lie outside the repository. The engine is modelled over an arbitrary
  implementation of the calls it makes; every theorem below holds for each such
  implementation.
\<close>

datatype yaml =
    YNull
  | YBool bool
  | YInt int
  | YFloat real
  | YStr str
  | YDate str
  | YSeq "yaml list"
  | YMap "(str \<times> yaml) list"

datatype py_error =
    AttributeError | TypeError | ValueError | YAMLError | SystemExit int | CollaboratorFailure

text \<open>
  \<open>yaml_safe_load\<close> returns the parsed value or raises: a \<open>YAMLError\<close> for text that
  is not YAML, and other exceptions from the constructors of scalar values (a
  \<open>ValueError\<close> for a timestamp such as \<open>2026-13-45\<close>).
\<close>

record pylib =
  str_lower :: "str \<Rightarrow> str"
  re_sub :: "str \<Rightarrow> str \<Rightarrow> str \<Rightarrow> str"
  re_split :: "str \<Rightarrow> str \<Rightarrow> str list"
  re_search :: "str \<Rightarrow> str \<Rightarrow> bool"
  re_findall :: "str \<Rightarrow> str \<Rightarrow> str list"
  re_findall_groups :: "str \<Rightarrow> str \<Rightarrow> (str \<times> str) list"
  re_escape :: "str \<Rightarrow> str"
  re_match_dotall :: "str \<Rightarrow> str \<Rightarrow> (str \<times> str) option"
  yaml_safe_load :: "str \<Rightarrow> py_error + yaml"

text \<open>\<open>str.lower\<close> on a string of ASCII characters: the letters A to Z move to a to z.\<close>

definition ascii_lower :: "str \<Rightarrow> str" where
  "ascii_lower s = map (\<lambda>c. if 65 \<le> c \<and> c \<le> 90 then c + 32 else c) s"

text \<open>
  What Python's \<open>re\<close> returns when the pattern matches nowhere in the text: \<open>sub\<close> gives
  the text back, \<open>split\<close> gives the one-element list of the text, \<open>search\<close> and
  \<open>match\<close> find nothing, \<open>findall\<close> is empty. No pattern of the engine matches the
  empty text (for a non-empty keyword and community), so this is the library's behaviour
  on the empty document. \<open>escape\<close> is left as the identity: its result only goes
  back into \<open>findall\<close>. \<open>lower\<close> is the one of ASCII strings, which is what the
  keywords, the community names and the empty document are.
\<close>

definition re_no_match :: pylib where
  "re_no_match = \<lparr> str_lower = ascii_lower,
     re_sub = (\<lambda>p r t. t), re_split = (\<lambda>p t. [t]), re_search = (\<lambda>p t. False),
     re_findall = (\<lambda>p t. []), re_findall_groups = (\<lambda>p t. []), re_escape = (\<lambda>s. s),
     re_match_dotall = (\<lambda>p t. None), yaml_safe_load = (\<lambda>t. Inl YAMLError) \<rparr>"

section \<open>Score reports\<close>

text \<open>
  A finding or suggestion is kept as the text of its format string (check mark and cross
  written \<open>[ok]\<close> and \<open>[x]\<close>) with the values formatted into it.
\<close>

datatype arg = I int | R real | S str

datatype message = Message string "arg list"

record ScoreDetail =
  category :: string
  score :: real
  max_score :: real
  percentage :: real
  findings :: "message list"
  suggestions :: "message list"

section \<open>Configuration: \<open>SCORING["word_count"]\<close>\<close>

definition wc_weight :: int where "wc_weight = 10"
definition wc_target_min :: int where "wc_target_min = 1500"
definition wc_target_max :: int where "wc_target_max = 2500"
definition wc_hard_min :: int where "wc_hard_min = 800"
definition wc_hard_max :: int where "wc_hard_max = 3500"

section \<open>Feature extractors\<close>

definition count_words :: "pylib \<Rightarrow> str \<Rightarrow> nat" where
  "count_words L text =
     (let clean = re_sub L (u (''[#*'' @ bs @ ''['' @ bs @ '']()>`_~]'')) (u '' '') text;
          clean = re_sub L (u (''https?://'' @ bs @ ''S+'')) [] clean
      in length (split_ws clean))"

section \<open>Word count rule\<close>

text \<open>
  \<open>score_word_count_at wc\<close> is the body of \<open>score_word_count\<close> after the word count has
  been measured; \<open>score_word_count\<close> measures it with \<open>count_words\<close>.
\<close>

definition score_word_count_at :: "nat \<Rightarrow> ScoreDetail" where
  "score_word_count_at wc =
     (let weight = real_of_int wc_weight;
          findings0 = [Message ''Word count: {}'' [I (int wc)]];
          (score, findings, suggestions) =
            (if wc_target_min \<le> int wc \<and> int wc \<le> wc_target_max then
               (weight,
                findings0 @ [Message ''[ok] Within target range ({}-{})'' [I wc_target_min, I wc_target_max]],
                [])
             else if wc_hard_min \<le> int wc \<and> int wc < wc_target_min then
               (let ratio = real_of_int (int wc - wc_hard_min) / real_of_int (wc_target_min - wc_hard_min)
                in (weight * (0.5 + 0.5 * ratio), findings0,
                    [Message ''Add {} more words to reach minimum target of {}''
                       [I (wc_target_min - int wc), I wc_target_min]]))
             else if wc_target_max < int wc \<and> int wc \<le> wc_hard_max then
               (let ratio = real_of_int (wc_hard_max - int wc) / real_of_int (wc_hard_max - wc_target_max)
                in (weight * (0.5 + 0.5 * ratio), findings0,
                    [Message ''Trim {} words -- content over {} words can hurt engagement''
                       [I (int wc - wc_target_max), I wc_target_max]]))
             else
               (weight * 0.2, findings0,
                [if int wc < wc_hard_min
                 then Message ''Significantly below minimum. Target at least {} words'' [I wc_target_min]
                 else Message ''Significantly over maximum. Target under {} words'' [I wc_target_max]]))
      in \<lparr> category = ''Word Count'', score = score, max_score = weight,
           percentage = (score / weight) * 100, findings = findings, suggestions = suggestions \<rparr>)"

definition score_word_count :: "pylib \<Rightarrow> str \<Rightarrow> ScoreDetail" where
  "score_word_count L body = score_word_count_at (count_words L body)"

section \<open>Heading inventory\<close>

record headings =
  h1 :: "str list"
  h2 :: "str list"
  h3 :: "str list"
  h4 :: "str list"

text \<open>The body of the loop of \<open>extract_headings\<close>: one line of the body text.\<close>

definition add_heading_line :: "headings \<Rightarrow> str \<Rightarrow> headings" where
  "add_heading_line hs raw =
     (let line = strip raw in
      if startswith line (u ''#### '') then hs\<lparr>h4 := h4 hs @ [strip (drop 5 line)]\<rparr>
      else if startswith line (u ''### '') then hs\<lparr>h3 := h3 hs @ [strip (drop 4 line)]\<rparr>
      else if startswith line (u ''## '') then hs\<lparr>h2 := h2 hs @ [strip (drop 3 line)]\<rparr>
      else if startswith line (u ''# '') then hs\<lparr>h1 := h1 hs @ [strip (drop 2 line)]\<rparr>
      else hs)"

definition extract_headings :: "str \<Rightarrow> headings" where
  "extract_headings body =
     foldl add_heading_line \<lparr>h1 = [], h2 = [], h3 = [], h4 = []\<rparr> (split_on newline body)"

text \<open>
  The level at which one line is filed (the same chain of tests, without the lists),
  its heading text, and the number of \<open>#\<close> characters a text begins with.
\<close>

definition heading_level :: "str \<Rightarrow> nat option" where
  "heading_level raw =
     (let line = strip raw in
      if startswith line (u ''#### '') then Some 4
      else if startswith line (u ''### '') then Some 3
      else if startswith line (u ''## '') then Some 2
      else if startswith line (u ''# '') then Some 1
      else None)"

definition heading_text :: "nat \<Rightarrow> str \<Rightarrow> str" where
  "heading_text k raw = strip (drop (k + 1) (strip raw))"

definition marker_count :: "str \<Rightarrow> nat" where
  "marker_count s = length (takeWhile (\<lambda>c. c = of_char (CHR ''#'')) s)"

definition level_list :: "headings \<Rightarrow> nat \<Rightarrow> str list" where
  "level_list hs k = (if k = 1 then h1 hs else if k = 2 then h2 hs else if k = 3 then h3 hs
                      else if k = 4 then h4 hs else [])"

section \<open>Sentences and paragraphs\<close>

definition url_pattern :: str where
  "url_pattern =
     u (''https?://'' @ bs @ ''S+'')"

definition sentence_end_pattern :: str where
  "sentence_end_pattern =
     u (''[.!?]+'' @ bs @ ''s+'')"

definition extract_sentences :: "pylib \<Rightarrow> str \<Rightarrow> str list" where
  "extract_sentences L text =
     (let clean = re_sub L (u (''[#*>'' @ bs @ ''['' @ bs @ '']()]'')) [] text;
          clean = re_sub L url_pattern [] clean;
          sentences = re_split L sentence_end_pattern clean
      in map strip (filter (\<lambda>s. length (split_ws (strip s)) > 2) sentences))"

text \<open>The loop of \<open>extract_paragraphs\<close> carries the paragraphs found and the open block.\<close>

definition flush_block :: "str list \<Rightarrow> str list \<Rightarrow> str list" where
  "flush_block paragraphs current =
     (let text = join (u '' '') current in
      if \<not> startswith text (u ''#'') \<and> length (split_ws text) > 5 then paragraphs @ [text]
      else paragraphs)"

definition paragraph_line :: "str list \<times> str list \<Rightarrow> str \<Rightarrow> str list \<times> str list" where
  "paragraph_line st line =
     (let paragraphs = fst st; current = snd st; stripped = strip line in
      if stripped = [] then
        (if current \<noteq> [] then (flush_block paragraphs current, []) else (paragraphs, current))
      else if \<not> startswith stripped (u ''#'') \<and> \<not> startswith stripped (u ''---'') then
        (paragraphs, current @ [stripped])
      else (paragraphs, current))"

definition extract_paragraphs :: "str \<Rightarrow> str list" where
  "extract_paragraphs body =
     (let st = foldl paragraph_line ([], []) (split_on newline body) in
      if snd st \<noteq> [] then flush_block (fst st) (snd st) else fst st)"

section \<open>Checklist bookkeeping\<close>

text \<open>
  A rule accumulates \<open>points\<close>, \<open>findings\<close> and \<open>suggestions\<close> in three local
  variables. A tally holds the three; \<open>award\<close> is \<open>points += p\<close>, \<open>finding\<close> and
  \<open>suggest\<close> are the two \<open>append\<close> calls, and \<open>detail\<close> is the final
  \<open>ScoreDetail(...)\<close> with \<open>percentage = (points / weight) * 100\<close>.
\<close>

type_synonym tally = "real \<times> message list \<times> message list"

definition start :: tally where
  "start = (0, [], [])"

definition award :: "real \<Rightarrow> tally \<Rightarrow> tally" where
  "award p t = (fst t + p, snd t)"

definition finding :: "message \<Rightarrow> tally \<Rightarrow> tally" where
  "finding m t = (fst t, fst (snd t) @ [m], snd (snd t))"

definition suggest :: "message \<Rightarrow> tally \<Rightarrow> tally" where
  "suggest m t = (fst t, fst (snd t), snd (snd t) @ [m])"

definition detail :: "string \<Rightarrow> real \<Rightarrow> tally \<Rightarrow> ScoreDetail" where
  "detail name weight t =
     \<lparr> category = name, score = fst t, max_score = weight,
       percentage = (fst t / weight) * 100, findings = fst (snd t), suggestions = snd (snd t) \<rparr>"

section \<open>Preamble values\<close>

type_synonym frontmatter = "str \<Rightarrow> yaml option"

text \<open>Python truthiness, \<open>d.get(k, default)\<close>, \<open>v.lower()\<close> and \<open>len(v)\<close> on a parsed value.\<close>

fun truthy :: "yaml \<Rightarrow> bool" where
  "truthy YNull = False"
| "truthy (YBool b) = b"
| "truthy (YInt i) = (i \<noteq> 0)"
| "truthy (YFloat r) = (r \<noteq> 0)"
| "truthy (YStr s) = (s \<noteq> [])"
| "truthy (YDate s) = True"
| "truthy (YSeq xs) = (xs \<noteq> [])"
| "truthy (YMap kvs) = (kvs \<noteq> [])"

definition dict_get :: "frontmatter \<Rightarrow> str \<Rightarrow> yaml \<Rightarrow> yaml" where
  "dict_get fm k dflt = (case fm k of None \<Rightarrow> dflt | Some v \<Rightarrow> v)"

fun py_lower :: "pylib \<Rightarrow> yaml \<Rightarrow> py_error + str" where
  "py_lower L (YStr s) = Inr (str_lower L s)"
| "py_lower L v = Inl AttributeError"

fun py_len :: "yaml \<Rightarrow> py_error + nat" where
  "py_len (YStr s) = Inr (length s)"
| "py_len (YSeq xs) = Inr (length xs)"
| "py_len (YMap kvs) = Inr (length kvs)"
| "py_len v = Inl TypeError"

section \<open>Keyword optimization rule\<close>

definition kw_weight :: int where "kw_weight = 15"
definition kw_target_density_min :: real where "kw_target_density_min = 0.008"
definition kw_target_density_max :: real where "kw_target_density_max = 0.02"

definition kw_per_check :: real where
  "kw_per_check = real_of_int kw_weight / 5"

definition kw_title_check :: "str \<Rightarrow> str \<Rightarrow> str \<Rightarrow> tally \<Rightarrow> tally" where
  "kw_title_check primary_keyword kw_lower title_lower t =
     (if contains kw_lower title_lower then
        finding (Message ''[ok] Primary keyword in title'' []) (award kw_per_check t)
      else
        finding (Message ''[x] Primary keyword missing from title'' [])
          (suggest (Message ''Include '{}' in the post title'' [S primary_keyword]) t))"

definition kw_first_100_check :: "pylib \<Rightarrow> str \<Rightarrow> str \<Rightarrow> str \<Rightarrow> tally \<Rightarrow> tally" where
  "kw_first_100_check L primary_keyword kw_lower body t =
     (let words = split_ws body;
          first_100 = str_lower L (join (u '' '') (take 100 words))
      in if contains kw_lower first_100 then
           finding (Message ''[ok] Keyword in first 100 words'' []) (award kw_per_check t)
         else
           finding (Message ''[x] Keyword missing from first 100 words'' [])
             (suggest (Message ''Mention '{}' within the first 100 words/opening paragraph''
                         [S primary_keyword]) t))"

definition kw_headings_check :: "pylib \<Rightarrow> str \<Rightarrow> str \<Rightarrow> str \<Rightarrow> tally \<Rightarrow> tally" where
  "kw_headings_check L primary_keyword kw_lower body t =
     (let headings = extract_headings body;
          all_headings = str_lower L (join (u '' '') (h1 headings @ h2 headings @ h3 headings @ h4 headings))
      in if contains kw_lower all_headings then
           finding (Message ''[ok] Keyword appears in headings'' []) (award kw_per_check t)
         else
           finding (Message ''[x] Keyword missing from all headings'' [])
             (suggest (Message ''Use '{}' (or close variant) in at least one H2 subheading''
                         [S primary_keyword]) t))"

definition kw_density_check :: "pylib \<Rightarrow> str \<Rightarrow> str \<Rightarrow> tally \<Rightarrow> tally" where
  "kw_density_check L kw_lower body t =
     (let total_words = count_words L body in
      if total_words > 0 then
        (let kw_count = length (re_findall L (re_escape L kw_lower) (str_lower L body));
             kw_word_count = length (split_ws kw_lower);
             density = real (kw_count * kw_word_count) / real total_words;
             t = finding (Message ''Keyword density: {:.3f} ({:.1f}%)'' [R density, R (density * 100)]) t
         in if kw_target_density_min \<le> density \<and> density \<le> kw_target_density_max then
              finding (Message ''[ok] Keyword density in optimal range'' []) (award kw_per_check t)
            else if density < kw_target_density_min then
              suggest (Message ''Increase keyword usage -- density {:.1f}% is below {:.1f}% target''
                         [R (density * 100), R (kw_target_density_min * 100)])
                (award (kw_per_check * 0.4) t)
            else
              suggest (Message ''Reduce keyword stuffing -- density {:.1f}% exceeds {:.1f}% ceiling''
                         [R (density * 100), R (kw_target_density_max * 100)])
                (award (kw_per_check * 0.3) t))
      else t)"

definition kw_meta_check :: "str \<Rightarrow> str \<Rightarrow> str \<Rightarrow> tally \<Rightarrow> tally" where
  "kw_meta_check primary_keyword kw_lower meta_lower t =
     (if contains kw_lower meta_lower then
        finding (Message ''[ok] Keyword in meta description'' []) (award kw_per_check t)
      else
        finding (Message ''[x] Keyword missing from meta description'' [])
          (suggest (Message ''Include '{}' in the meta description'' [S primary_keyword]) t))"

text \<open>
  \<open>title.lower()\<close> and \<open>meta_desc.lower()\<close> are method calls on whatever the preamble
  holds under the key: they raise \<open>AttributeError\<close> when the value is not a string.
\<close>

definition score_keyword_optimization ::
  "pylib \<Rightarrow> str \<Rightarrow> frontmatter \<Rightarrow> str \<Rightarrow> py_error + ScoreDetail" where
  "score_keyword_optimization L body fm primary_keyword =
     (let kw_lower = str_lower L primary_keyword;
          title = dict_get fm (u ''title'') (YStr [])
      in case py_lower L title of Inl e \<Rightarrow> Inl e | Inr title_lower \<Rightarrow>
         (let t = kw_title_check primary_keyword kw_lower title_lower start;
              t = kw_first_100_check L primary_keyword kw_lower body t;
              t = kw_headings_check L primary_keyword kw_lower body t;
              t = kw_density_check L kw_lower body t;
              meta_desc = dict_get fm (u ''description'') (YStr [])
          in case py_lower L meta_desc of Inl e \<Rightarrow> Inl e | Inr meta_lower \<Rightarrow>
             Inr (detail ''Keyword Optimization'' (real_of_int kw_weight)
                    (kw_meta_check primary_keyword kw_lower meta_lower t))))"

section \<open>Heading structure rule\<close>

definition hs_weight :: int where "hs_weight = 10"
definition hs_target_h2_count_min :: nat where "hs_target_h2_count_min = 3"
definition hs_target_h2_count_max :: nat where "hs_target_h2_count_max = 8"
definition hs_target_h3_count_min :: nat where "hs_target_h3_count_min = 2"

definition hs_per_check :: real where
  "hs_per_check = real_of_int hs_weight / 4"

definition hs_h1_check :: "nat \<Rightarrow> tally \<Rightarrow> tally" where
  "hs_h1_check h1_count t =
     (if h1_count \<le> 1 then
        finding (Message ''[ok] H1 count: {} (appropriate)'' [I (int h1_count)]) (award hs_per_check t)
      else
        finding (Message ''[x] Multiple H1 tags: {}'' [I (int h1_count)])
          (suggest (Message ''Reduce to 1 H1 tag -- found {}'' [I (int h1_count)]) t))"

definition hs_h2_check :: "nat \<Rightarrow> tally \<Rightarrow> tally" where
  "hs_h2_check h2_count t0 =
     (let t = finding (Message ''H2 count: {}'' [I (int h2_count)]) t0 in
      if hs_target_h2_count_min \<le> h2_count \<and> h2_count \<le> hs_target_h2_count_max then
        finding (Message ''[ok] H2 count in target range ({}-{})''
                   [I (int hs_target_h2_count_min), I (int hs_target_h2_count_max)])
          (award hs_per_check t)
      else if h2_count > 0 then
        (if h2_count < hs_target_h2_count_min then
           suggest (Message ''Add more H2 sections -- have {}, target {}+''
                      [I (int h2_count), I (int hs_target_h2_count_min)])
             (award (hs_per_check * 0.5) t)
         else
           suggest (Message ''Consolidate sections -- {} H2s may fragment the content'' [I (int h2_count)])
             (award (hs_per_check * 0.5) t))
      else
        suggest (Message ''Add H2 subheadings to break up content into scannable sections'' []) t)"

definition hs_h3_check :: "nat \<Rightarrow> tally \<Rightarrow> tally" where
  "hs_h3_check h3_count t0 =
     (let t = finding (Message ''H3 count: {}'' [I (int h3_count)]) t0 in
      if h3_count \<ge> hs_target_h3_count_min then
        finding (Message ''[ok] Content has sub-section depth with H3s'' []) (award hs_per_check t)
      else if h3_count > 0 then
        suggest (Message ''Add more H3 sub-sections for depth -- have {}, target {}+''
                   [I (int h3_count), I (int hs_target_h3_count_min)])
          (award (hs_per_check * 0.6) t)
      else
        suggest (Message ''Add H3 sub-sections under H2s for better content hierarchy'' []) t)"

text \<open>The hierarchy walk carries \<open>hierarchy_ok\<close> and \<open>last_level\<close> from line to line.\<close>

definition hierarchy_line :: "bool \<times> nat \<Rightarrow> str \<Rightarrow> bool \<times> nat" where
  "hierarchy_line st line =
     (let hierarchy_ok = fst st; last_level = snd st; stripped = strip line;
          seen = (\<lambda>level. (if level > last_level + 1 \<and> last_level > 0 then False else hierarchy_ok, level))
      in if startswith stripped (u ''#### '') then seen 4
         else if startswith stripped (u ''### '') then seen 3
         else if startswith stripped (u ''## '') then seen 2
         else if startswith stripped (u ''# '') then seen 1
         else (hierarchy_ok, last_level))"

definition hs_hierarchy_check :: "str \<Rightarrow> tally \<Rightarrow> tally" where
  "hs_hierarchy_check body t =
     (let hierarchy_ok = fst (foldl hierarchy_line (True, 0) (split_on newline body)) in
      if hierarchy_ok then
        finding (Message ''[ok] Heading hierarchy is logical'' []) (award hs_per_check t)
      else
        suggest (Message ''Fix heading hierarchy -- don't skip levels (e.g., H2 -> H4)'' [])
          (award (hs_per_check * 0.3) t))"

definition score_heading_structure :: "str \<Rightarrow> ScoreDetail" where
  "score_heading_structure body =
     (let headings = extract_headings body;
          t = hs_h1_check (length (h1 headings)) start;
          t = hs_h2_check (length (h2 headings)) t;
          t = hs_h3_check (length (h3 headings)) t;
          t = hs_hierarchy_check body t
      in detail ''Heading Structure'' (real_of_int hs_weight) t)"

section \<open>Readability rule\<close>

definition rd_weight :: int where "rd_weight = 10"
definition rd_target_avg_sentence_length_min :: real where "rd_target_avg_sentence_length_min = 12"
definition rd_target_avg_sentence_length_max :: real where "rd_target_avg_sentence_length_max = 22"
definition rd_target_avg_paragraph_sentences_min :: real where "rd_target_avg_paragraph_sentences_min = 2"
definition rd_target_avg_paragraph_sentences_max :: real where "rd_target_avg_paragraph_sentences_max = 5"

definition rd_per_check :: real where
  "rd_per_check = real_of_int rd_weight / 3"

definition word_lengths :: "str list \<Rightarrow> nat list" where
  "word_lengths sentences = map (\<lambda>s. length (split_ws s)) sentences"

definition rd_sentence_check :: "str list \<Rightarrow> tally \<Rightarrow> tally" where
  "rd_sentence_check sentences t0 =
     (if sentences \<noteq> [] then
        (let avg_sentence_len = real (sum_list (word_lengths sentences)) / real (length sentences);
             t = finding (Message ''Average sentence length: {:.1f} words'' [R avg_sentence_len]) t0
         in if rd_target_avg_sentence_length_min \<le> avg_sentence_len
               \<and> avg_sentence_len \<le> rd_target_avg_sentence_length_max then
              finding (Message ''[ok] Sentence length in optimal range'' []) (award rd_per_check t)
            else if avg_sentence_len < rd_target_avg_sentence_length_min then
              suggest (Message ''Sentences are too short -- combine some for better flow and depth'' [])
                (award (rd_per_check * 0.6) t)
            else
              suggest (Message ''Average sentence too long ({:.0f} words). Break up complex sentences''
                         [R avg_sentence_len])
                (award (rd_per_check * 0.5) t))
      else
        suggest (Message ''Could not parse sentences -- check content formatting'' []) t0)"

definition rd_paragraph_check :: "pylib \<Rightarrow> str list \<Rightarrow> tally \<Rightarrow> tally" where
  "rd_paragraph_check L paragraphs t0 =
     (if paragraphs \<noteq> [] then
        (let para_sentence_counts =
               map (\<lambda>p. length (filter (\<lambda>s. length (split_ws s) > 2) (re_split L sentence_end_pattern p)))
                 paragraphs;
             avg_para = real (sum_list para_sentence_counts) / real (length para_sentence_counts);
             t = finding (Message ''Average paragraph length: {:.1f} sentences'' [R avg_para]) t0
         in if rd_target_avg_paragraph_sentences_min \<le> avg_para
               \<and> avg_para \<le> rd_target_avg_paragraph_sentences_max then
              finding (Message ''[ok] Paragraph length in optimal range'' []) (award rd_per_check t)
            else if avg_para < rd_target_avg_paragraph_sentences_min then
              suggest (Message ''Paragraphs are too short -- combine related sentences'' [])
                (award (rd_per_check * 0.5) t)
            else
              suggest (Message ''Paragraphs are too long -- break into smaller chunks for web readability'' [])
                (award (rd_per_check * 0.5) t))
      else t0)"

definition rd_variety_check :: "str list \<Rightarrow> tally \<Rightarrow> tally" where
  "rd_variety_check sentences t0 =
     (if length sentences > 3 then
        (let lens = map real (word_lengths sentences);
             mean_len = sum_list lens / real (length lens);
             variance = sum_list (map (\<lambda>x. (x - mean_len) ^ 2) lens) / real (length lens);
             std_dev = sqrt variance;
             t = finding (Message ''Sentence length variety (std dev): {:.1f}'' [R std_dev]) t0
         in if std_dev > 5 then
              finding (Message ''[ok] Good sentence length variety'' []) (award rd_per_check t)
            else if std_dev > 3 then
              suggest (Message ''Vary sentence lengths more -- mix short punchy sentences with longer ones'' [])
                (award (rd_per_check * 0.6) t)
            else
              suggest (Message ''Sentences are too uniform in length -- monotonous reading rhythm'' [])
                (award (rd_per_check * 0.3) t))
      else t0)"

definition score_readability :: "pylib \<Rightarrow> str \<Rightarrow> ScoreDetail" where
  "score_readability L body =
     (let sentences = extract_sentences L body;
          paragraphs = extract_paragraphs body;
          t = rd_sentence_check sentences start;
          t = rd_paragraph_check L paragraphs t;
          t = rd_variety_check sentences t
      in detail ''Readability'' (real_of_int rd_weight) t)"

section \<open>Local SEO rule\<close>

definition communities :: "str list" where
  "communities = map u
    [''Westerville'', ''Dublin'', ''Powell'', ''Delaware'', ''Lewis Center'',
     ''Sunbury'', ''Galena'', ''Centerburg'', ''Johnstown'', ''New Albany'',
     ''Gahanna'', ''Reynoldsburg'', ''Pickerington'', ''Canal Winchester'',
     ''Grove City'', ''Hilliard'', ''Plain City'']"

definition ls_weight :: int where "ls_weight = 15"
definition ls_community_mention_min :: nat where "ls_community_mention_min = 3"

definition ls_region_terms :: "str list" where
  "ls_region_terms = map u
    [''Central Ohio'', ''Franklin County'', ''Delaware County'',
     ''Columbus'', ''Columbus metro'', ''I-270'', ''I-71'', ''Polaris'', ''Easton'', ''Short North'']"

definition ls_per_check :: real where
  "ls_per_check = real_of_int ls_weight / 4"

definition local_signals :: "str list" where
  "local_signals = map u
    [bs @ ''b'' @ bs @ ''d{5}'' @ bs @ ''b'', ''school district'',
     ''elementary|middle school|high school'',
     ''park'' @ bs @ ''b|trail'' @ bs @ ''b|recreation'',
     ''downtown'' @ bs @ ''s+'' @ bs @ ''w+'', ''library|community center'',
     ''interstate|highway|route'' @ bs @ ''s+'' @ bs @ ''d+'']"

definition other_communities :: "pylib \<Rightarrow> str \<Rightarrow> str list" where
  "other_communities L community = filter (\<lambda>c. str_lower L c \<noteq> str_lower L community) communities"

definition ls_community_check :: "pylib \<Rightarrow> str \<Rightarrow> str \<Rightarrow> tally \<Rightarrow> tally" where
  "ls_community_check L community body_lower t0 =
     (let community_count = length (re_findall L (re_escape L (str_lower L community)) body_lower);
          t = finding (Message ''Community name '{}' mentions: {}'' [S community, I (int community_count)]) t0
      in if community_count \<ge> ls_community_mention_min then
           finding (Message ''[ok] Sufficient community mentions'' []) (award ls_per_check t)
         else if community_count > 0 then
           suggest (Message ''Mention '{}' more -- found {}, target {}+''
                      [S community, I (int community_count), I (int ls_community_mention_min)])
             (award (ls_per_check * 0.5) t)
         else
           suggest (Message (CHR 0x27 # ''{}' doesn't appear in body text -- critical for local SEO'')
                      [S community]) t)"

definition ls_region_check :: "pylib \<Rightarrow> str \<Rightarrow> tally \<Rightarrow> tally" where
  "ls_region_check L body_lower t0 =
     (let region_hits = filter (\<lambda>term. contains (str_lower L term) body_lower) ls_region_terms;
          t = finding (Message ''Regional terms found: {}/{}''
                         [I (int (length region_hits)), I (int (length ls_region_terms))]) t0
      in if length region_hits \<ge> 3 then
           finding (Message ''[ok] Good regional context: {}'' [S (join (u '', '') (take 5 region_hits))])
             (award ls_per_check t)
         else if length region_hits \<ge> 1 then
           (let missing = take 3 (filter (\<lambda>t. \<not> List.member region_hits t) ls_region_terms) in
            suggest (Message ''Add more regional context. Consider: {}'' [S (join (u '', '') missing)])
              (award (ls_per_check * 0.5) t))
         else
           suggest (Message ''No regional terms found -- add Central Ohio, county, landmark references'' []) t)"

definition ls_nearby_check :: "pylib \<Rightarrow> str \<Rightarrow> str \<Rightarrow> tally \<Rightarrow> tally" where
  "ls_nearby_check L community body_lower t0 =
     (let others = other_communities L community;
          nearby_mentions = filter (\<lambda>c. contains (str_lower L c) body_lower) others;
          t = finding (Message ''Nearby community mentions: {}'' [I (int (length nearby_mentions))]) t0
      in if length nearby_mentions \<ge> 2 then
           finding (Message ''[ok] References other communities: {}'' [S (join (u '', '') (take 4 nearby_mentions))])
             (award ls_per_check t)
         else if length nearby_mentions = 1 then
           suggest (Message ''Reference more nearby communities for internal linking opportunities'' [])
             (award (ls_per_check * 0.5) t)
         else
           suggest (Message ''Mention nearby communities (e.g., {}) for cross-linking''
                      [S (join (u '', '') (take 3 others))]) t)"

definition ls_signal_check :: "pylib \<Rightarrow> str \<Rightarrow> tally \<Rightarrow> tally" where
  "ls_signal_check L body_lower t0 =
     (let signal_count = length (filter (\<lambda>p. re_search L p body_lower) local_signals);
          t = finding (Message ''Local detail signals found: {}/{}''
                         [I (int signal_count), I (int (length local_signals))]) t0
      in if signal_count \<ge> 3 then
           finding (Message ''[ok] Strong local detail signals'' []) (award ls_per_check t)
         else if signal_count \<ge> 1 then
           suggest (Message ''Add more hyperlocal details -- school districts, parks, ZIP codes, landmarks'' [])
             (award (ls_per_check * 0.5) t)
         else
           suggest (Message ''Content lacks local specificity -- add school districts, parks, ZIP codes'' []) t)"

definition score_local_seo :: "pylib \<Rightarrow> str \<Rightarrow> str \<Rightarrow> ScoreDetail" where
  "score_local_seo L body community =
     (let body_lower = str_lower L body;
          t = ls_community_check L community body_lower start;
          t = ls_region_check L body_lower t;
          t = ls_nearby_check L community body_lower t;
          t = ls_signal_check L body_lower t
      in detail ''Local SEO'' (real_of_int ls_weight) t)"

section \<open>Meta description rule\<close>

definition md_weight :: int where "md_weight = 10"
definition md_target_length_min :: nat where "md_target_length_min = 140"
definition md_target_length_max :: nat where "md_target_length_max = 160"

definition md_per_check :: real where
  "md_per_check = real_of_int md_weight / 4"

definition md_cta_patterns :: "str list" where
  "md_cta_patterns = map u
    [''learn'', ''discover'', ''find out'', ''explore'', ''contact'', ''call'',
     ''get started'', ''see'', ''browse'', ''search'', ''view'', ''check out'']"

definition md_generic_patterns :: "str list" where
  "md_generic_patterns = map u
    [''^this (article|post|blog|page)'', ''^read (about|more)'',
     ''^in this (article|post)'']"

definition md_length_check :: "nat \<Rightarrow> tally \<Rightarrow> tally" where
  "md_length_check n t0 =
     (let t = finding (Message ''Meta description length: {} chars'' [I (int n)]) t0 in
      if md_target_length_min \<le> n \<and> n \<le> md_target_length_max then
        finding (Message ''[ok] Length in optimal range ({}-{})''
                   [I (int md_target_length_min), I (int md_target_length_max)])
          (award md_per_check t)
      else if 100 \<le> n \<and> n < md_target_length_min then
        suggest (Message ''Meta description slightly short ({} chars). Target {}-{}''
                   [I (int n), I (int md_target_length_min), I (int md_target_length_max)])
          (award (md_per_check * 0.6) t)
      else if md_target_length_max < n \<and> n \<le> 200 then
        suggest (Message ''Meta description too long ({} chars) -- will be truncated'' [I (int n)])
          (award (md_per_check * 0.5) t)
      else
        suggest (Message ''Meta description length ({}) far from optimal. Target {}-{}''
                   [I (int n), I (int md_target_length_min), I (int md_target_length_max)]) t)"

definition md_keyword_check :: "pylib \<Rightarrow> str \<Rightarrow> str \<Rightarrow> tally \<Rightarrow> tally" where
  "md_keyword_check L primary_keyword desc_lower t =
     (if contains (str_lower L primary_keyword) desc_lower then
        finding (Message ''[ok] Contains primary keyword'' []) (award md_per_check t)
      else
        suggest (Message ''Include '{}' in meta description'' [S primary_keyword]) t)"

definition md_cta_check :: "pylib \<Rightarrow> str \<Rightarrow> tally \<Rightarrow> tally" where
  "md_cta_check L desc_lower t =
     (if list_ex (\<lambda>p. re_search L p desc_lower) md_cta_patterns then
        finding (Message ''[ok] Contains action-oriented language'' []) (award md_per_check t)
      else
        suggest (Message ''Add a call-to-action in meta description'' []) t)"

definition md_generic_check :: "pylib \<Rightarrow> str \<Rightarrow> nat \<Rightarrow> tally \<Rightarrow> tally" where
  "md_generic_check L desc_lower n t =
     (let is_generic = list_ex (\<lambda>p. re_search L p desc_lower) md_generic_patterns in
      if \<not> is_generic \<and> n > 50 then
        finding (Message ''[ok] Description appears unique and compelling'' []) (award md_per_check t)
      else
        suggest (Message ''Make meta description more compelling -- avoid generic openings'' [])
          (award (md_per_check * 0.3) t))"

text \<open>
  \<open>len(desc)\<close> raises \<open>TypeError\<close> on a value without a length and \<open>desc.lower()\<close>
  raises \<open>AttributeError\<close> on a value that is not a string; a falsy value (absent,
  empty, null, zero) takes the early return.
\<close>

definition score_meta_description :: "pylib \<Rightarrow> frontmatter \<Rightarrow> str \<Rightarrow> py_error + ScoreDetail" where
  "score_meta_description L fm primary_keyword =
     (let weight = real_of_int md_weight;
          desc = dict_get fm (u ''description'') (YStr [])
      in if \<not> truthy desc then
           Inr \<lparr> category = ''Meta Description'', score = 0, max_score = weight, percentage = 0,
                 findings = [Message ''[x] No meta description found'' []],
                 suggestions = [Message ''Add a meta description in frontmatter -- critical for search results CTR'' []] \<rparr>
         else
           (case py_len desc of Inl e \<Rightarrow> Inl e | Inr n \<Rightarrow>
             (case py_lower L desc of Inl e \<Rightarrow> Inl e | Inr desc_lower \<Rightarrow>
                (let t = md_length_check n start;
                     t = md_keyword_check L primary_keyword desc_lower t;
                     t = md_cta_check L desc_lower t;
                     t = md_generic_check L desc_lower n t
                 in Inr (detail ''Meta Description'' weight t)))))"

section \<open>Internal linking rule\<close>

definition il_weight :: int where "il_weight = 10"
definition il_target_min_links :: nat where "il_target_min_links = 3"
definition il_target_max_links :: nat where "il_target_max_links = 8"

definition il_per_check :: real where
  "il_per_check = real_of_int il_weight / 3"

definition link_pattern :: str where
  "link_pattern =
     u (bs @ ''[([^'' @ bs @ '']]+)'' @ bs @ '']'' @ bs @ ''(([^'' @ bs @ '')]+)'' @ bs @ '')'')"

definition service_keywords :: "str list" where
  "service_keywords = map u
    [''commission'', ''listing'', ''buyer'', ''seller'', ''cashback'', ''inspection'']"

definition is_internal :: "str \<times> str \<Rightarrow> bool" where
  "is_internal l = (contains (u ''tdrealtyohio.com'') (snd l) \<or> startswith (snd l) (u ''/''))"

definition il_count_check :: "nat \<Rightarrow> nat \<Rightarrow> tally \<Rightarrow> tally" where
  "il_count_check n_internal n_external t0 =
     (let t = finding (Message ''Internal links: {}'' [I (int n_internal)]) t0;
          t = finding (Message ''External links: {}'' [I (int n_external)]) t
      in if il_target_min_links \<le> n_internal \<and> n_internal \<le> il_target_max_links then
           finding (Message ''[ok] Internal link count in optimal range'' []) (award il_per_check t)
         else if n_internal > 0 then
           (if n_internal < il_target_min_links then
              suggest (Message ''Add more internal links -- have {}, target {}+''
                         [I (int n_internal), I (int il_target_min_links)])
                (award (il_per_check * 0.5) t)
            else
              suggest (Message ''Too many internal links ({}) -- may appear spammy'' [I (int n_internal)])
                (award (il_per_check * 0.5) t))
         else
           suggest (Message ''Add internal links to community and service pages on tdrealtyohio.com'' []) t)"

definition il_service_check :: "pylib \<Rightarrow> (str \<times> str) list \<Rightarrow> tally \<Rightarrow> tally" where
  "il_service_check L internal_links t =
     (let has_service_link =
            list_ex (\<lambda>l. list_ex (\<lambda>kw. contains kw (str_lower L (fst l)) \<or> contains kw (str_lower L (snd l)))
                            service_keywords) internal_links
      in if has_service_link then
           finding (Message ''[ok] Links to service/value proposition pages'' []) (award il_per_check t)
         else
           suggest (Message ''Add link to TD Realty's service pages (commission savings, free inspections, etc.)'' []) t)"

text \<open>
  The cross-community finding joins a Python \<open>set\<close>, whose order is not fixed; the model
  lists each community once, in order of first appearance.
\<close>

definition il_community_check :: "pylib \<Rightarrow> str \<Rightarrow> (str \<times> str) list \<Rightarrow> tally \<Rightarrow> tally" where
  "il_community_check L community internal_links t =
     (let others = other_communities L community;
          community_links =
            concat (map (\<lambda>l. filter (\<lambda>c. contains (str_lower L c) (str_lower L (fst l))
                                           \<or> contains (str_lower L c) (str_lower L (snd l))) others)
                      internal_links)
      in if community_links \<noteq> [] then
           finding (Message ''[ok] Cross-community links: {}'' [S (join (u '', '') (remdups community_links))])
             (award il_per_check t)
         else
           suggest (Message ''Add links to nearby community pages (e.g., {})''
                      [S (join (u '', '') (take 3 others))]) t)"

definition score_internal_linking :: "pylib \<Rightarrow> str \<Rightarrow> str \<Rightarrow> ScoreDetail" where
  "score_internal_linking L body community =
     (let links = re_findall_groups L link_pattern body;
          internal_links = filter is_internal links;
          external_links = filter (\<lambda>l. \<not> List.member internal_links l) links;
          t = il_count_check (length internal_links) (length external_links) start;
          t = il_service_check L internal_links t;
          t = il_community_check L community internal_links t
      in detail ''Internal Linking'' (real_of_int il_weight) t)"

section \<open>Content depth rule\<close>

definition cd_weight :: int where "cd_weight = 10"
definition cd_target_unique_sections :: nat where "cd_target_unique_sections = 4"

definition cd_per_check :: real where
  "cd_per_check = real_of_int cd_weight / 4"

definition stat_patterns :: "str list" where
  "stat_patterns = map u
    [bs @ ''d+%'', bs @ ''$['' @ bs @ ''d,]+'', ''median'', ''average'',
     ''increased|decreased|grew|declined'', ''year-over-year|month-over-month|yoy|mom'',
     ''according to|data shows|reports? (show|indicate)'']"

definition comparison_patterns :: "str list" where
  "comparison_patterns = map u
    [''pros? and cons?'', ''compared? to'', ''versus|vs'' @ bs @ ''.?'',
     ''top '' @ bs @ ''d+'', ''best '' @ bs @ ''d+'', ''advantages|disadvantages'']"

definition cd_section_check :: "nat \<Rightarrow> tally \<Rightarrow> tally" where
  "cd_section_check section_count t0 =
     (let t = finding (Message ''Total sections (H2+H3): {}'' [I (int section_count)]) t0 in
      if section_count \<ge> cd_target_unique_sections then
        finding (Message ''[ok] Sufficient content sections'' []) (award cd_per_check t)
      else if section_count \<ge> 2 then
        suggest (Message ''Add more content sections -- have {}, target {}+''
                   [I (int section_count), I (int cd_target_unique_sections)])
          (award (cd_per_check * 0.5) t)
      else
        suggest (Message ''Content needs more structured sections for depth'' []) t)"

definition cd_stat_check :: "pylib \<Rightarrow> str \<Rightarrow> tally \<Rightarrow> tally" where
  "cd_stat_check L body_lower t0 =
     (let stat_count = length (filter (\<lambda>p. re_search L p body_lower) stat_patterns);
          t = finding (Message ''Statistical/data signals: {}'' [I (int stat_count)]) t0
      in if stat_count \<ge> 3 then
           finding (Message ''[ok] Content includes data and statistics'' []) (award cd_per_check t)
         else if stat_count \<ge> 1 then
           suggest (Message ''Add more market data, statistics, or percentage comparisons'' [])
             (award (cd_per_check * 0.5) t)
         else
           suggest (Message ''Include concrete statistics -- median home prices, market trends, percentages'' []) t)"

definition cd_faq_check :: "pylib \<Rightarrow> str \<Rightarrow> str \<Rightarrow> tally \<Rightarrow> tally" where
  "cd_faq_check L body body_lower t0 =
     (let question_count = count_char (of_char (CHR ''?'')) body;
          has_faq = re_search L (u ''faq|frequently asked|common questions'') body_lower;
          t = finding (Message ''Questions in content: {}'' [I (int question_count)]) t0
      in if has_faq \<or> question_count \<ge> 3 then
           finding (Message ''[ok] FAQ/question-based content present'' []) (award cd_per_check t)
         else if question_count \<ge> 1 then
           suggest (Message ''Add an FAQ section -- great for featured snippets'' [])
             (award (cd_per_check * 0.5) t)
         else
           suggest (Message ''Add FAQ section with common homebuyer/seller questions'' []) t)"

definition cd_comparison_check :: "pylib \<Rightarrow> str \<Rightarrow> tally \<Rightarrow> tally" where
  "cd_comparison_check L body_lower t =
     (if list_ex (\<lambda>p. re_search L p body_lower) comparison_patterns then
        finding (Message ''[ok] Comparative/evaluative content present'' []) (award cd_per_check t)
      else
        suggest (Message ''Add comparative elements -- how this community compares to alternatives'' [])
          (award (cd_per_check * 0.3) t))"

definition score_content_depth :: "pylib \<Rightarrow> str \<Rightarrow> ScoreDetail" where
  "score_content_depth L body =
     (let headings = extract_headings body;
          body_lower = str_lower L body;
          t = cd_section_check (length (h2 headings) + length (h3 headings)) start;
          t = cd_stat_check L body_lower t;
          t = cd_faq_check L body body_lower t;
          t = cd_comparison_check L body_lower t
      in detail ''Content Depth'' (real_of_int cd_weight) t)"

section \<open>Call to action rule\<close>

definition cta_weight :: int where "cta_weight = 5"
definition cta_target_count_min :: nat where "cta_target_count_min = 2"
definition cta_target_count_max :: nat where "cta_target_count_max = 4"

definition cta_patterns :: "str list" where
  "cta_patterns = map u
    [''contact'' @ bs @ ''s+(us|td realty)'', ''call'' @ bs @ ''s+(us|today|now)'',
     ''schedule'' @ bs @ ''s+(a|your)'', ''get'' @ bs @ ''s+(started|in touch|your free)'',
     ''reach'' @ bs @ ''s+out'', ''book'' @ bs @ ''s+(a|your)'',
     ''ready'' @ bs @ ''s+to'' @ bs @ ''s+(buy|sell|move|start|explore)'',
     ''(visit|check out)'' @ bs @ ''s+(our|tdrealtyohio)'',
     bs @ ''(614'' @ bs @ '')'',
     ''free'' @ bs @ ''s+(consultation|estimate|home'' @ bs @ ''s+valuation)'',
     ''save'' @ bs @ ''s+thousands'', ''1%'' @ bs @ ''s+(listing|commission)'']"

definition score_cta_at :: "nat \<Rightarrow> ScoreDetail" where
  "score_cta_at cta_count =
     (let weight = real_of_int cta_weight;
          t = finding (Message ''CTAs detected: {}'' [I (int cta_count)]) start;
          t = (if cta_target_count_min \<le> cta_count \<and> cta_count \<le> cta_target_count_max then
                 finding (Message ''[ok] CTA count in optimal range'' []) (award weight t)
               else if cta_count > cta_target_count_max then
                 suggest (Message ''Slightly too many CTAs -- reduce to 2-3 natural touchpoints'' [])
                   (award (weight * 0.7) t)
               else if cta_count = 1 then
                 suggest (Message ''Add another CTA -- one mid-content and one at the end'' [])
                   (award (weight * 0.5) t)
               else
                 suggest (Message ''Add calls to action -- invite readers to contact TD Realty'' [])
                   (award 0 t))
      in detail ''Call to Action'' weight t)"

definition score_cta :: "pylib \<Rightarrow> str \<Rightarrow> ScoreDetail" where
  "score_cta L body =
     score_cta_at (length (filter (\<lambda>p. re_search L p (str_lower L body)) cta_patterns))"

section \<open>Frontmatter rule\<close>

definition fm_weight :: int where "fm_weight = 5"

definition fm_required_fields :: "str list" where
  "fm_required_fields = map u
    [''title'', ''description'', ''date'', ''keywords'',
     ''author'', ''community'', ''category'']"

definition has_field :: "frontmatter \<Rightarrow> str \<Rightarrow> bool" where
  "has_field fm f = (case fm f of None \<Rightarrow> False | Some v \<Rightarrow> truthy v)"

definition score_frontmatter :: "frontmatter \<Rightarrow> ScoreDetail" where
  "score_frontmatter fm =
     (let weight = real_of_int fm_weight;
          present = filter (\<lambda>f. has_field fm f) fm_required_fields;
          missing = filter (\<lambda>f. \<not> has_field fm f) fm_required_fields;
          findings = [Message ''Frontmatter fields present: {}/{}''
                        [I (int (length present)), I (int (length fm_required_fields))]];
          findings = (if present \<noteq> [] then findings @ [Message ''[ok] Has: {}'' [S (join (u '', '') present)]]
                      else findings);
          findings = (if missing \<noteq> [] then findings @ [Message ''[x] Missing: {}'' [S (join (u '', '') missing)]]
                      else findings);
          suggestions = (if missing \<noteq> []
                         then [Message ''Add missing frontmatter fields: {}'' [S (join (u '', '') missing)]]
                         else []);
          ratio = (if fm_required_fields \<noteq> []
                   then real (length present) / real (length fm_required_fields) else 0);
          score = weight * ratio
      in \<lparr> category = ''Frontmatter'', score = score, max_score = weight,
           percentage = ratio * 100, findings = findings, suggestions = suggestions \<rparr>)"

section \<open>Scoring a post\<close>

record ScoreReport =
  total_score :: real
  max_possible :: real
  percentage :: real
  details :: "ScoreDetail list"
  iteration :: int

definition frontmatter_pattern :: str where
  "frontmatter_pattern =
     u (''^---'' @ bs @ ''s*'' @ bs @ ''n(.*?)'' @ bs @ ''n---'' @ bs @ ''s*'' @ bs @ ''n(.*)$'')"

text \<open>
  \<open>parse_frontmatter\<close> returns whatever the YAML parser produced when that is truthy:
  usually a mapping, but a preamble that is a bare scalar or a list comes back as such.
  A \<open>YAMLError\<close> is caught and gives the empty mapping, as a falsy result does; any
  other exception of the parser leaves the function.
\<close>

definition parse_frontmatter :: "pylib \<Rightarrow> str \<Rightarrow> py_error + yaml \<times> str" where
  "parse_frontmatter L content =
     (case re_match_dotall L frontmatter_pattern content of
        None \<Rightarrow> Inr (YMap [], content)
      | Some g \<Rightarrow>
          (case yaml_safe_load L (fst g) of
             Inl e \<Rightarrow> (if e = YAMLError then Inr (YMap [], snd g) else Inl e)
           | Inr v \<Rightarrow> Inr (if truthy v then v else YMap [], snd g)))"

text \<open>
  The ten rules in the order of the \<open>details\<close> list. The rules that read the preamble
  call \<open>frontmatter.get\<close>, which only a mapping has: any other value raises
  \<open>AttributeError\<close> in the keyword rule, the first to touch it. An exception in any
  rule leaves \<open>score_post\<close> without a report.
\<close>

definition score_parsed ::
  "pylib \<Rightarrow> yaml \<Rightarrow> str \<Rightarrow> str \<Rightarrow> str \<Rightarrow> int \<Rightarrow> py_error + ScoreReport" where
  "score_parsed L parsed body primary_keyword community iter =
     (case parsed of
        YMap kvs \<Rightarrow>
          (let fm = map_of kvs in
           case score_keyword_optimization L body fm primary_keyword of
             Inl e \<Rightarrow> Inl e
           | Inr keyword_detail \<Rightarrow>
               (case score_meta_description L fm primary_keyword of
                  Inl e \<Rightarrow> Inl e
                | Inr meta_detail \<Rightarrow>
                    (let details =
                           [score_word_count L body,
                            keyword_detail,
                            score_heading_structure body,
                            score_readability L body,
                            score_local_seo L body community,
                            meta_detail,
                            score_internal_linking L body community,
                            score_content_depth L body,
                            score_cta L body,
                            score_frontmatter fm];
                         total = sum_list (map score details);
                         max_possible = sum_list (map max_score details)
                     in Inr \<lparr> total_score = total, max_possible = max_possible,
                              percentage = (if max_possible > 0 then (total / max_possible) * 100 else 0),
                              details = details, iteration = iter \<rparr>)))
      | _ \<Rightarrow> Inl AttributeError)"

definition score_post :: "pylib \<Rightarrow> str \<Rightarrow> str \<Rightarrow> str \<Rightarrow> int \<Rightarrow> py_error + ScoreReport" where
  "score_post L content primary_keyword community iter =
     (case parse_frontmatter L content of
        Inl e \<Rightarrow> Inl e
      | Inr parsed \<Rightarrow> score_parsed L (fst parsed) (snd parsed) primary_keyword community iter)"

section \<open>Configuration: \<open>ITERATIONS\<close> and \<open>CONTENT_TYPES\<close>\<close>

record iterations_config =
  default_count :: int
  max_count :: int
  improvement_threshold :: real
  plateau_patience :: int

definition ITERATIONS :: iterations_config where
  "ITERATIONS = \<lparr> default_count = 5, max_count = 15, improvement_threshold = 1.0,
                   plateau_patience = 2 \<rparr>"

text \<open>Each content type with its description and its \<open>target_keywords_pattern\<close>.\<close>

definition CONTENT_TYPES :: "(str \<times> str \<times> str) list" where
  "CONTENT_TYPES = map (\<lambda>(k, d, p). (u k, u d, u p))
     [(''market_update'',
         ''Monthly/quarterly real estate market update for a specific community'',
         ''{community} real estate market {year}''),
      (''community_guide'',
         ''Comprehensive guide to living in a specific community'',
         ''living in {community} Ohio''),
      (''home_buying'',
         ''Home buying guide focused on a specific community'',
         ''homes for sale in {community} Ohio {year}''),
      (''home_selling'',
         ''Home selling guide with discount brokerage angle'',
         ''sell house {community} Ohio low commission''),
      (''mortgage_rates'',
         ''Mortgage rate update with local context'',
         ''mortgage rates {community} Ohio {year}''),
      (''neighborhood'',
         ''Neighborhood spotlight or comparison'',
         ''best neighborhoods {community} Ohio''),
      (''homebuyer_programs'',
         ''Guide to Ohio first-time homebuyer programs, down payment assistance, and grants available in a specific community'',
         ''first time home buyer programs {community} Ohio {year}''),
      (''local_events'',
         ''Guide to local events, festivals, farmers markets, and community activities in a specific area'',
         ''events and things to do in {community} Ohio {year}''),
      (''local_history'',
         ''Historical facts, landmarks, and interesting locations in a specific community'',
         ''history of {community} Ohio interesting facts'')]"

section \<open>Optimization loop\<close>

text \<open>
  What the loop obtains from outside the repository: the current year, \<open>str.format\<close>
  on a keyword pattern, and the text-production service. \<open>generate\<close> stands for
  building the generation prompt, calling the service and extracting the markdown from
  its response; \<open>revise\<close> for the same with the improvement prompt, which is built
  from the current content and report. Either may fail, and the loop does not catch
  the failure.
\<close>

record collaborators =
  year :: int
  format_pattern :: "str \<Rightarrow> str \<Rightarrow> int \<Rightarrow> str"
  generate :: "str \<Rightarrow> str \<Rightarrow> str \<Rightarrow> str \<Rightarrow> int \<Rightarrow> py_error + str"
  revise :: "str \<Rightarrow> ScoreReport \<Rightarrow> str \<Rightarrow> str \<Rightarrow> int \<Rightarrow> py_error + str"

type_synonym scorer = "str \<Rightarrow> str \<Rightarrow> str \<Rightarrow> int \<Rightarrow> py_error + ScoreReport"

text \<open>An entry of \<open>history\<close>; the wall-clock \<open>generation_time\<close> is left out.\<close>

record IterationRecord =
  rec_iteration :: int
  rec_score :: real
  rec_percentage :: real
  rec_improvement :: "real option"
  rec_category_scores :: "(string \<times> real) list"

text \<open>
  The files of the run directory that hold documents: \<open>v{i}.md\<close> and \<open>FINAL.md\<close>.
  The JSON score files and the run summary are not modelled.
\<close>

datatype artifact = VersionMd int | FinalMd

text \<open>The local variables of \<open>run_optimization\<close> that the loop reads and writes.\<close>

record RunState =
  history :: "IterationRecord list"
  content :: str
  report :: ScoreReport
  best_content :: str
  best_score :: real
  best_iteration :: int
  plateau_count :: int
  files :: "artifact \<Rightarrow> str option"

definition category_scores :: "ScoreReport \<Rightarrow> (string \<times> real) list" where
  "category_scores r = map (\<lambda>d. (category d, score d)) (details r)"

text \<open>One pass through the body of the \<open>for\<close> loop, up to the plateau test.\<close>

definition improvement_iteration ::
  "scorer \<Rightarrow> collaborators \<Rightarrow> str \<Rightarrow> str \<Rightarrow> int \<Rightarrow> RunState \<Rightarrow> py_error + RunState" where
  "improvement_iteration sc C primary_keyword community i s =
     (case revise C (content s) (report s) primary_keyword community i of
        Inl e \<Rightarrow> Inl e
      | Inr new_content \<Rightarrow>
          (case sc new_content primary_keyword community i of
             Inl e \<Rightarrow> Inl e
           | Inr new_report \<Rightarrow>
               (let improvement = total_score new_report - total_score (report s);
                    s = s\<lparr> files := (files s)(VersionMd i \<mapsto> new_content) \<rparr>;
                    s = s\<lparr> history := history s @
                             [\<lparr> rec_iteration = i, rec_score = total_score new_report,
                                rec_percentage = percentage new_report,
                                rec_improvement = Some improvement,
                                rec_category_scores = category_scores new_report \<rparr>] \<rparr>;
                    s = (if total_score new_report > best_score s then
                           s\<lparr> best_content := new_content, best_score := total_score new_report,
                              best_iteration := i, plateau_count := 0 \<rparr>
                         else s\<lparr> plateau_count := plateau_count s + 1 \<rparr>)
                in Inr (s\<lparr> content := new_content, report := new_report \<rparr>))))"

text \<open>
  The \<open>for\<close> loop over the remaining indices of \<open>range(1, iterations + 1)\<close>, with
  its \<open>break\<close>.
\<close>

fun improvement_loop ::
  "iterations_config \<Rightarrow> scorer \<Rightarrow> collaborators \<Rightarrow> str \<Rightarrow> str \<Rightarrow> int list \<Rightarrow> RunState
     \<Rightarrow> py_error + RunState" where
  "improvement_loop cfg sc C primary_keyword community [] s = Inr s"
| "improvement_loop cfg sc C primary_keyword community (i # rest) s =
     (case improvement_iteration sc C primary_keyword community i s of
        Inl e \<Rightarrow> Inl e
      | Inr s' \<Rightarrow>
          if plateau_count s' \<ge> plateau_patience cfg then Inr s'
          else improvement_loop cfg sc C primary_keyword community rest s')"

text \<open>
  \<open>run_optimization_with\<close> is \<open>run_optimization\<close> with the \<open>ITERATIONS\<close> table and
  the scoring function as parameters; \<open>run_optimization\<close> fixes them to the configured
  table and \<open>score_post\<close>. \<open>iteration_cap\<close> is the default and the clamp of the
  requested count, \<open>initial_state\<close> the variables after iteration 0, \<open>finalize\<close> the
  writing of \<open>FINAL.md\<close>. The result is the final state; the returned dictionary is
  read off it by the functions that follow.
\<close>

definition iteration_cap :: "iterations_config \<Rightarrow> int option \<Rightarrow> int" where
  "iteration_cap cfg iterations =
     (let iterations = (case iterations of None \<Rightarrow> default_count cfg | Some n \<Rightarrow> n)
      in min iterations (max_count cfg))"

definition initial_state :: "str \<Rightarrow> ScoreReport \<Rightarrow> RunState" where
  "initial_state content0 report0 =
     \<lparr> history = [\<lparr> rec_iteration = 0, rec_score = total_score report0,
                     rec_percentage = percentage report0, rec_improvement = None,
                     rec_category_scores = category_scores report0 \<rparr>],
       content = content0, report = report0,
       best_content = content0, best_score = total_score report0,
       best_iteration = 0, plateau_count = 0,
       files = [VersionMd 0 \<mapsto> content0] \<rparr>"

definition finalize :: "RunState \<Rightarrow> RunState" where
  "finalize s = s\<lparr> files := (files s)(FinalMd \<mapsto> best_content s) \<rparr>"

definition run_optimization_with ::
  "iterations_config \<Rightarrow> scorer \<Rightarrow> collaborators \<Rightarrow> str \<Rightarrow> str \<Rightarrow> str option \<Rightarrow> int option
     \<Rightarrow> py_error + RunState" where
  "run_optimization_with cfg sc C community content_type primary_keyword iterations =
     (case map_of CONTENT_TYPES content_type of
        None \<Rightarrow> Inl (SystemExit 1)
      | Some ct \<Rightarrow>
          (let keyword = (case primary_keyword of
                            None \<Rightarrow> format_pattern C (snd ct) community (year C)
                          | Some k \<Rightarrow> if k = [] then format_pattern C (snd ct) community (year C) else k);
               iterations = iteration_cap cfg iterations
           in case generate C keyword community content_type (fst ct) (year C) of
                Inl e \<Rightarrow> Inl e
              | Inr content0 \<Rightarrow>
                  (case sc content0 keyword community 0 of
                     Inl e \<Rightarrow> Inl e
                   | Inr report0 \<Rightarrow>
                       (case improvement_loop cfg sc C keyword community [1..iterations]
                               (initial_state content0 report0) of
                          Inl e \<Rightarrow> Inl e
                        | Inr s \<Rightarrow> Inr (finalize s)))))"

definition run_optimization ::
  "pylib \<Rightarrow> collaborators \<Rightarrow> str \<Rightarrow> str \<Rightarrow> str option \<Rightarrow> int option \<Rightarrow> py_error + RunState" where
  "run_optimization L = run_optimization_with ITERATIONS (score_post L)"

definition all_scores :: "RunState \<Rightarrow> real list" where
  "all_scores s = map rec_score (history s)"

definition iterations_run :: "RunState \<Rightarrow> nat" where
  "iterations_run s = length (history s) - 1"

section \<open>A scripted run\<close>

text \<open>
  A text-production service that answers iteration \<open>i\<close> with the document \<open>draft i\<close>,
  and a scorer that gives the document of iteration \<open>i\<close> the \<open>i\<close>-th score of a fixed
  list. They drive the loop through a chosen sequence of total scores.
\<close>

definition draft :: "int \<Rightarrow> str" where
  "draft i = u ''draft '' @ replicate (nat i) (of_char (CHR ''+''))"

definition scripted :: collaborators where
  "scripted = \<lparr> year = 2026, format_pattern = (\<lambda>p c y. p),
                 generate = (\<lambda>kw c ct d y. Inr (draft 0)),
                 revise = (\<lambda>doc rep kw c i. Inr (draft i)) \<rparr>"

definition scripted_scores :: "real list \<Rightarrow> scorer" where
  "scripted_scores scores doc kw c i =
     (if 0 \<le> i \<and> nat i < length scores then
        Inr \<lparr> total_score = scores ! nat i, max_possible = 100, percentage = scores ! nat i,
              details = [], iteration = i \<rparr>
      else Inl CollaboratorFailure)"

text \<open>A service that answers every request with the empty document.\<close>

definition silent :: collaborators where
  "silent = \<lparr> year = 2026, format_pattern = (\<lambda>p c y. p),
                generate = (\<lambda>kw c ct d y. Inr []),
                revise = (\<lambda>doc rep kw c i. Inr []) \<rparr>"

text \<open>The outcome of a run as \<open>(all_scores, iterations_run, best_iteration, best_score)\<close>.\<close>

definition outcome :: "py_error + RunState \<Rightarrow> (real list \<times> nat \<times> int \<times> real) option" where
  "outcome r = (case r of Inl e \<Rightarrow> None
                | Inr s \<Rightarrow> Some (all_scores s, iterations_run s, best_iteration s, best_score s))"

text \<open>
  The state after the first \<open>k\<close> passes through the loop body, starting at index \<open>i\<close>,
  when no plateau test is made.
\<close>

fun passes ::
  "scorer \<Rightarrow> collaborators \<Rightarrow> str \<Rightarrow> str \<Rightarrow> int \<Rightarrow> nat \<Rightarrow> RunState \<Rightarrow> py_error + RunState" where
  "passes sc C primary_keyword community i 0 s = Inr s"
| "passes sc C primary_keyword community i (Suc k) s =
     (case improvement_iteration sc C primary_keyword community i s of
        Inl e \<Rightarrow> Inl e
      | Inr s' \<Rightarrow> passes sc C primary_keyword community (i + 1) k s')"

section \<open>Properties of results\<close>

text \<open>The invariant of a category result.\<close>

definition within_bounds :: "ScoreDetail \<Rightarrow> bool" where
  "within_bounds d = (0 \<le> score d \<and> score d \<le> max_score d \<and> 0 < max_score d
                      \<and> ScoreDetail.percentage d = score d / max_score d * 100)"

text \<open>The categories of a report whose findings list is empty.\<close>

definition empty_findings :: "py_error + ScoreReport \<Rightarrow> string list" where
  "empty_findings r = (case r of Inl e \<Rightarrow> []
                       | Inr rep \<Rightarrow> map category (filter (\<lambda>d. findings d = []) (details rep)))"

text \<open>
  A finding reports a measured value when its message carries a number. The categories
  of a report none of whose findings does.
\<close>

fun is_number :: "arg \<Rightarrow> bool" where
  "is_number (I i) = True"
| "is_number (R r) = True"
| "is_number (S s) = False"

fun reports_value :: "message \<Rightarrow> bool" where
  "reports_value (Message t args) = list_ex is_number args"

definition valueless_findings :: "py_error + ScoreReport \<Rightarrow> string list" where
  "valueless_findings r = (case r of Inl e \<Rightarrow> []
       | Inr rep \<Rightarrow> map category (filter (\<lambda>d. \<not> list_ex reports_value (findings d)) (details rep)))"

text \<open>Whether a run made more passes than \<open>min n max_count\<close> when asked for \<open>n\<close>.\<close>

definition exceeds_request :: "py_error + RunState \<Rightarrow> int \<Rightarrow> bool" where
  "exceeds_request r n = (case r of Inl e \<Rightarrow> False
       | Inr s \<Rightarrow> int (iterations_run s) > min n (max_count ITERATIONS))"

text \<open>
  The invariant of the loop: the tracked best is the first iteration that reached the
  highest score so far, its document is on file, and the plateau counter counts the
  iterations since.
\<close>

definition best_tracked :: "RunState \<Rightarrow> bool" where
  "best_tracked s =
     (0 \<le> best_iteration s \<and> nat (best_iteration s) < length (history s)
      \<and> rec_score (history s ! nat (best_iteration s)) = best_score s
      \<and> (\<forall>j < length (history s). rec_score (history s ! j) \<le> best_score s)
      \<and> (\<forall>j < nat (best_iteration s). rec_score (history s ! j) < best_score s)
      \<and> files s (VersionMd (best_iteration s)) = Some (best_content s)
      \<and> plateau_count s = int (length (history s)) - 1 - best_iteration s)"

section \<open>Banded scoring of the word count\<close>

lemma wc_score_cases:
  "score (score_word_count_at wc) =
     (if 1500 \<le> wc \<and> wc \<le> 2500 then 10
      else if 800 \<le> wc \<and> wc < 1500 then 10 * (0.5 + 0.5 * ((real wc - 800) / 700))
      else if 2500 < wc \<and> wc \<le> 3500 then 10 * (0.5 + 0.5 * ((3500 - real wc) / 1000))
      else 2)"
  by (simp add: score_word_count_at_def wc_weight_def wc_target_min_def wc_target_max_def
      wc_hard_min_def wc_hard_max_def Let_def)

text \<open>
  C3. The word count rule scores the measured word count \<open>wc\<close> in bands: the full
  weight inside the target range; \<open>weight * (0.5 + 0.5 * ratio)\<close> between a hard bound
  and the target bound, with \<open>ratio\<close> the fraction of the way from the hard bound to
  the target bound, which lies in \<open>[0.5 * weight, weight)\<close>; and \<open>weight * 0.2\<close>
  outside the hard range.
\<close>

theorem word_count_banding:
  "score_word_count L body = score_word_count_at (count_words L body)
   \<and> (wc_target_min \<le> int wc \<and> int wc \<le> wc_target_max \<longrightarrow>
        score (score_word_count_at wc) = real_of_int wc_weight)
   \<and> (wc_hard_min \<le> int wc \<and> int wc < wc_target_min \<longrightarrow>
        score (score_word_count_at wc) =
          real_of_int wc_weight *
            (0.5 + 0.5 * (real_of_int (int wc - wc_hard_min) / real_of_int (wc_target_min - wc_hard_min)))
        \<and> 0.5 * real_of_int wc_weight \<le> score (score_word_count_at wc)
        \<and> score (score_word_count_at wc) < real_of_int wc_weight)
   \<and> (wc_target_max < int wc \<and> int wc \<le> wc_hard_max \<longrightarrow>
        score (score_word_count_at wc) =
          real_of_int wc_weight *
            (0.5 + 0.5 * (real_of_int (wc_hard_max - int wc) / real_of_int (wc_hard_max - wc_target_max)))
        \<and> 0.5 * real_of_int wc_weight \<le> score (score_word_count_at wc)
        \<and> score (score_word_count_at wc) < real_of_int wc_weight)
   \<and> (int wc < wc_hard_min \<or> wc_hard_max < int wc \<longrightarrow>
        score (score_word_count_at wc) = real_of_int wc_weight * 0.2)"
  by (simp add: score_word_count_def wc_score_cases wc_weight_def wc_target_min_def
      wc_target_max_def wc_hard_min_def wc_hard_max_def)

theorem word_count_banding_witness:
  "score (score_word_count_at 2000) = 10 \<and> score (score_word_count_at 1150) = 7.5
   \<and> score (score_word_count_at 3000) = 7.5 \<and> score (score_word_count_at 100) = 2
   \<and> score (score_word_count_at 5000) = 2"
  using word_count_banding [of re_no_match "[]" 2000] word_count_banding [of re_no_match "[]" 1150]
    word_count_banding [of re_no_match "[]" 3000] word_count_banding [of re_no_match "[]" 100]
    word_count_banding [of re_no_match "[]" 5000]
  by (simp add: wc_weight_def wc_target_min_def wc_target_max_def wc_hard_min_def wc_hard_max_def)

lemma md_length_points:
  "fst (md_length_check n t) =
     fst t + (if 140 \<le> n \<and> n \<le> 160 then 2.5 else if 100 \<le> n \<and> n < 140 then 1.5
              else if 160 < n \<and> n \<le> 200 then 1.25 else 0)"
  by (simp add: md_length_check_def md_per_check_def md_weight_def md_target_length_min_def
      md_target_length_max_def Let_def award_def finding_def suggest_def)

text \<open>
  C7. Banded scoring is monotonic. Of two word counts below the target range, the
  larger one never scores lower; of two word counts above the target range, the smaller
  one never scores lower. The same holds for the points that the length band of the
  meta description awards.
\<close>

theorem banded_scoring_monotone:
  "(v1 < v2 \<and> int v2 < wc_target_min \<longrightarrow>
      score (score_word_count_at v1) \<le> score (score_word_count_at v2))
   \<and> (wc_target_max < int v2 \<and> v2 < v1 \<longrightarrow>
      score (score_word_count_at v1) \<le> score (score_word_count_at v2))
   \<and> (n1 < n2 \<and> n2 < md_target_length_min \<longrightarrow>
      fst (md_length_check n1 t) \<le> fst (md_length_check n2 t))
   \<and> (md_target_length_max < n2 \<and> n2 < n1 \<longrightarrow>
      fst (md_length_check n1 t) \<le> fst (md_length_check n2 t))"
  by (simp add: wc_score_cases md_length_points wc_target_min_def wc_target_max_def
      md_target_length_min_def md_target_length_max_def)

theorem banded_scoring_monotone_witness:
  "score (score_word_count_at 500) \<le> score (score_word_count_at 900)
   \<and> score (score_word_count_at 900) \<le> score (score_word_count_at 1400)
   \<and> score (score_word_count_at 4000) \<le> score (score_word_count_at 3400)
   \<and> score (score_word_count_at 3400) \<le> score (score_word_count_at 2600)
   \<and> fst (md_length_check 90 start) \<le> fst (md_length_check 120 start)
   \<and> fst (md_length_check 250 start) \<le> fst (md_length_check 180 start)"
  using banded_scoring_monotone [of 500 900 90 120 start]
    banded_scoring_monotone [of 900 1400 90 120 start]
    banded_scoring_monotone [of 3400 2600 180 250 start]
    banded_scoring_monotone [of 4000 3400 250 180 start]
  by (simp add: wc_target_min_def wc_target_max_def md_target_length_min_def md_target_length_max_def)

section \<open>The heading inventory\<close>

lemma add_heading_line_level:
  "level_list (add_heading_line hs raw) k =
     level_list hs k @ (if heading_level raw = Some k then [heading_text k raw] else [])"
  by (auto simp: add_heading_line_def heading_level_def heading_text_def level_list_def Let_def
      numeral_eq_Suc)

lemma foldl_heading_lines:
  "level_list (foldl add_heading_line hs ls) k =
     level_list hs k @ map (heading_text k) (filter (\<lambda>raw. heading_level raw = Some k) ls)"
proof (induction ls arbitrary: hs)
  case Nil
  show ?case by simp
next
  case (Cons l ls)
  show ?case by (simp add: Cons.IH add_heading_line_level)
qed

lemma marker_prefix:
  "startswith l (replicate k (of_char (CHR ''#'')) @ (u '' '')) \<longleftrightarrow>
     marker_count l = k \<and> startswith (drop k l) (u '' '')"
proof (induction k arbitrary: l)
  case 0
  show ?case by (cases l) (auto simp: startswith_def marker_count_def u_def)
next
  case (Suc k)
  show ?case
  proof (cases l)
    case Nil
    then show ?thesis by (simp add: startswith_def marker_count_def)
  next
    case (Cons c cs)
    have "startswith (c # cs) (replicate (Suc k) (of_char (CHR ''#'')) @ (u '' '')) \<longleftrightarrow>
            c = of_char (CHR ''#'') \<and> startswith cs (replicate k (of_char (CHR ''#'')) @ (u '' ''))"
      by (auto simp: startswith_def)
    moreover have "marker_count (c # cs) = Suc k \<longleftrightarrow> c = of_char (CHR ''#'') \<and> marker_count cs = k"
      by (simp add: marker_count_def)
    ultimately show ?thesis using Suc.IH [of cs] Cons by auto
  qed
qed

lemma marker_literals:
  "startswith l (u ''#### '') \<longleftrightarrow> marker_count l = 4 \<and> startswith (drop 4 l) (u '' '')"
  "startswith l (u ''### '') \<longleftrightarrow> marker_count l = 3 \<and> startswith (drop 3 l) (u '' '')"
  "startswith l (u ''## '') \<longleftrightarrow> marker_count l = 2 \<and> startswith (drop 2 l) (u '' '')"
  "startswith l (u ''# '') \<longleftrightarrow> marker_count l = 1 \<and> startswith (drop 1 l) (u '' '')"
proof -
  have e: "u ''#### '' = replicate 4 (of_char (CHR ''#'')) @ u '' ''"
    "u ''### '' = replicate 3 (of_char (CHR ''#'')) @ u '' ''"
    "u ''## '' = replicate 2 (of_char (CHR ''#'')) @ u '' ''"
    "u ''# '' = replicate 1 (of_char (CHR ''#'')) @ u '' ''"
    by (simp_all add: u_def eval_nat_numeral)
  show "startswith l (u ''#### '') \<longleftrightarrow> marker_count l = 4 \<and> startswith (drop 4 l) (u '' '')"
    unfolding e(1) by (rule marker_prefix)
  show "startswith l (u ''### '') \<longleftrightarrow> marker_count l = 3 \<and> startswith (drop 3 l) (u '' '')"
    unfolding e(2) by (rule marker_prefix)
  show "startswith l (u ''## '') \<longleftrightarrow> marker_count l = 2 \<and> startswith (drop 2 l) (u '' '')"
    unfolding e(3) by (rule marker_prefix)
  show "startswith l (u ''# '') \<longleftrightarrow> marker_count l = 1 \<and> startswith (drop 1 l) (u '' '')"
    unfolding e(4) by (rule marker_prefix)
qed

lemma heading_level_iff:
  "heading_level raw = Some k \<longleftrightarrow>
     1 \<le> k \<and> k \<le> 4 \<and> marker_count (strip raw) = k \<and> startswith (drop k (strip raw)) (u '' '')"
proof -
  have "k = 1 \<or> k = 2 \<or> k = 3 \<or> k = 4 \<or> k < 1 \<or> 4 < k" by arith
  then show ?thesis
    unfolding heading_level_def Let_def marker_literals by auto
qed

text \<open>
  C9, as the code has it. Every line is stripped of leading and trailing whitespace
  (the code points of \<open>is_space\<close>, which are those of \<open>str.strip\<close>) before it is
  tested, so an indented marker counts as one at the start of the line.
  The inventory at level \<open>k\<close> lists, in order, the heading texts of the lines filed
  at level \<open>k\<close>; and a line is filed at level \<open>k\<close> exactly when its stripped text
  begins with \<open>k\<close> characters \<open>#\<close>, \<open>k\<close> between 1 and 4, followed by a space.
\<close>

theorem heading_inventory:
  "level_list (extract_headings body) k =
     map (heading_text k) (filter (\<lambda>raw. heading_level raw = Some k) (split_on newline body))
   \<and> (heading_level raw = Some k \<longleftrightarrow>
        1 \<le> k \<and> k \<le> 4 \<and> marker_count (strip raw) = k \<and> startswith (drop k (strip raw)) (u '' ''))"
proof -
  have "level_list \<lparr>h1 = [], h2 = [], h3 = [], h4 = []\<rparr> k = []"
    by (simp add: level_list_def)
  then have "level_list (extract_headings body) k =
     map (heading_text k) (filter (\<lambda>raw. heading_level raw = Some k) (split_on newline body))"
    unfolding extract_headings_def by (simp add: foldl_heading_lines)
  then show ?thesis using heading_level_iff [of raw k] by simp
qed

text \<open>
  A line whose marker stands in its third column, after two spaces, is inventoried as a
  level-2 heading; so is one whose marker follows a no-break space.
\<close>

theorem indented_heading_counterexample:
  "h2 (extract_headings (u ''  ## Schools'')) = [u ''Schools'']
   \<and> \<not> startswith (u ''  ## Schools'') (u ''#'')
   \<and> h2 (extract_headings (0xA0 # u ''## Schools'')) = [u ''Schools'']
   \<and> \<not> startswith (0xA0 # u ''## Schools'') (u ''#'')"
  by (simp add: extract_headings_def split_on_def u_def newline_def add_heading_line_def strip_def is_space_def
      startswith_def Let_def)


theorem heading_inventory_witness:
  "level_list (extract_headings ((u ''# Guide'') @ [newline] @ (u ''  ## Schools'') @ [newline]
      @ (u ''see ## not'') @ [newline] @ (u ''##### deep'') @ [newline] @ (u ''###tight''))) 2 = [(u ''Schools'')]
   \<and> heading_level (u ''  ## Schools'') = Some 2
   \<and> marker_count (strip (u ''  ## Schools'')) = 2
   \<and> heading_level (0xA0 # u ''## Schools'' @ [0x85]) = Some 2
   \<and> heading_level (0x3000 # u ''### Parks'' @ [0x2003]) = Some 3
   \<and> heading_level (u ''see ## not'') = None
   \<and> heading_level (u ''##### deep'') = None
   \<and> heading_level (u ''###tight'') = None"
  using heading_inventory [of "(u ''# Guide'') @ [newline] @ (u ''  ## Schools'') @ [newline]
      @ (u ''see ## not'') @ [newline] @ (u ''##### deep'') @ [newline] @ (u ''###tight'')" 2 "(u ''  ## Schools'')"]
  by (simp add: split_on_def u_def newline_def heading_level_def heading_text_def strip_def is_space_def
      startswith_def marker_count_def Let_def)

section \<open>The ten rules, one by one\<close>

subsection \<open>Tallies\<close>

lemma tally_points:
  "fst (award p t) = fst t + p" "fst (finding m t) = fst t" "fst (suggest m t) = fst t"
  "fst start = 0"
  by (simp_all add: award_def finding_def suggest_def start_def)

lemma tally_findings:
  "fst (snd (award p t)) = fst (snd t)" "fst (snd (finding m t)) = fst (snd t) @ [m]"
  "fst (snd (suggest m t)) = fst (snd t)" "fst (snd start) = []"
  by (simp_all add: award_def finding_def suggest_def start_def)

lemma detail_fields:
  "score (detail name w t) = fst t" "max_score (detail name w t) = w"
  "ScoreDetail.percentage (detail name w t) = fst t / w * 100"
  "findings (detail name w t) = fst (snd t)" "category (detail name w t) = name"
  by (simp_all add: detail_def)

lemma within_bounds_detail:
  "0 \<le> fst t \<and> fst t \<le> w \<Longrightarrow> 0 < w \<Longrightarrow> within_bounds (detail name w t)"
  by (simp add: within_bounds_def detail_fields)

subsection \<open>Keyword optimization\<close>

lemma kw_title_points:
  "lo \<le> fst t \<and> fst t \<le> hi \<Longrightarrow>
   lo \<le> fst (kw_title_check k kl ttl t) \<and> fst (kw_title_check k kl ttl t) \<le> hi + 3"
  by (simp add: kw_title_check_def tally_points kw_per_check_def kw_weight_def)

lemma kw_first_100_points:
  "lo \<le> fst t \<and> fst t \<le> hi \<Longrightarrow>
   lo \<le> fst (kw_first_100_check L k kl body t) \<and> fst (kw_first_100_check L k kl body t) \<le> hi + 3"
  by (simp add: kw_first_100_check_def tally_points kw_per_check_def kw_weight_def Let_def)

lemma kw_headings_points:
  "lo \<le> fst t \<and> fst t \<le> hi \<Longrightarrow>
   lo \<le> fst (kw_headings_check L k kl body t) \<and> fst (kw_headings_check L k kl body t) \<le> hi + 3"
  by (simp add: kw_headings_check_def tally_points kw_per_check_def kw_weight_def Let_def)

lemma kw_density_points:
  "lo \<le> fst t \<and> fst t \<le> hi \<Longrightarrow>
   lo \<le> fst (kw_density_check L kl body t) \<and> fst (kw_density_check L kl body t) \<le> hi + 3"
  by (simp add: kw_density_check_def tally_points kw_per_check_def kw_weight_def Let_def)

lemma kw_meta_points:
  "lo \<le> fst t \<and> fst t \<le> hi \<Longrightarrow>
   lo \<le> fst (kw_meta_check k kl ml t) \<and> fst (kw_meta_check k kl ml t) \<le> hi + 3"
  by (simp add: kw_meta_check_def tally_points kw_per_check_def kw_weight_def)

lemma kw_title_finding: "fst (snd (kw_title_check k kl ttl t)) \<noteq> []"
  by (simp add: kw_title_check_def tally_findings)

lemma kw_first_100_finding: "fst (snd (kw_first_100_check L k kl body t)) \<noteq> []"
  by (simp add: kw_first_100_check_def tally_findings Let_def)

lemma kw_headings_finding: "fst (snd (kw_headings_check L k kl body t)) \<noteq> []"
  by (simp add: kw_headings_check_def tally_findings Let_def)

lemma kw_meta_finding: "fst (snd (kw_meta_check k kl ml t)) \<noteq> []"
  by (simp add: kw_meta_check_def tally_findings)

lemma keyword_result:
  assumes "score_keyword_optimization L body fm kw = Inr d"
  shows "within_bounds d \<and> findings d \<noteq> []"
proof -
  obtain ttl ml where d: "d = detail ''Keyword Optimization'' 15
      (kw_meta_check kw (str_lower L kw) ml
        (kw_density_check L (str_lower L kw) body
          (kw_headings_check L kw (str_lower L kw) body
            (kw_first_100_check L kw (str_lower L kw) body
              (kw_title_check kw (str_lower L kw) ttl start)))))"
    using assms
    by (auto simp: score_keyword_optimization_def Let_def kw_weight_def split: sum.splits)
  let ?t = "kw_meta_check kw (str_lower L kw) ml
        (kw_density_check L (str_lower L kw) body
          (kw_headings_check L kw (str_lower L kw) body
            (kw_first_100_check L kw (str_lower L kw) body
              (kw_title_check kw (str_lower L kw) ttl start))))"
  have "0 \<le> fst ?t \<and> fst ?t \<le> 0 + 3 + 3 + 3 + 3 + 3"
    by (intro kw_title_points kw_first_100_points kw_headings_points kw_density_points
        kw_meta_points) (simp add: tally_points)
  then have "within_bounds d"
    unfolding d by (intro within_bounds_detail) simp_all
  then show ?thesis by (simp add: d detail_fields kw_meta_finding)
qed

subsection \<open>Heading structure\<close>

lemma hs_h1_points:
  "lo \<le> fst t \<and> fst t \<le> hi \<Longrightarrow>
   lo \<le> fst (hs_h1_check n t) \<and> fst (hs_h1_check n t) \<le> hi + hs_per_check"
  by (simp add: hs_h1_check_def tally_points hs_per_check_def hs_weight_def)

lemma hs_h2_points:
  "lo \<le> fst t \<and> fst t \<le> hi \<Longrightarrow>
   lo \<le> fst (hs_h2_check n t) \<and> fst (hs_h2_check n t) \<le> hi + hs_per_check"
  by (simp add: hs_h2_check_def tally_points hs_per_check_def hs_weight_def Let_def)

lemma hs_h3_points:
  "lo \<le> fst t \<and> fst t \<le> hi \<Longrightarrow>
   lo \<le> fst (hs_h3_check n t) \<and> fst (hs_h3_check n t) \<le> hi + hs_per_check"
  by (simp add: hs_h3_check_def tally_points hs_per_check_def hs_weight_def Let_def)

lemma hs_hierarchy_points:
  "lo \<le> fst t \<and> fst t \<le> hi \<Longrightarrow>
   lo \<le> fst (hs_hierarchy_check body t) \<and> fst (hs_hierarchy_check body t) \<le> hi + hs_per_check"
  by (simp add: hs_hierarchy_check_def tally_points hs_per_check_def hs_weight_def Let_def)

lemma hs_h3_finding: "fst (snd (hs_h3_check n t)) \<noteq> []"
  by (simp add: hs_h3_check_def tally_findings Let_def)

lemma hs_hierarchy_finding:
  "fst (snd t) \<noteq> [] \<Longrightarrow> fst (snd (hs_hierarchy_check body t)) \<noteq> []"
  by (simp add: hs_hierarchy_check_def tally_findings Let_def)

lemma heading_structure_result:
  "within_bounds (score_heading_structure body) \<and> findings (score_heading_structure body) \<noteq> []"
proof -
  let ?hs = "extract_headings body"
  let ?t = "hs_hierarchy_check body (hs_h3_check (length (h3 ?hs))
              (hs_h2_check (length (h2 ?hs)) (hs_h1_check (length (h1 ?hs)) start)))"
  have d: "score_heading_structure body = detail ''Heading Structure'' 10 ?t"
    by (simp add: score_heading_structure_def Let_def hs_weight_def)
  have "0 \<le> fst ?t \<and> fst ?t \<le> 0 + hs_per_check + hs_per_check + hs_per_check + hs_per_check"
    by (intro hs_h1_points hs_h2_points hs_h3_points hs_hierarchy_points) (simp add: tally_points)
  then have "within_bounds (score_heading_structure body)"
    unfolding d by (intro within_bounds_detail) (simp_all add: hs_per_check_def hs_weight_def)
  then show ?thesis by (simp add: d detail_fields hs_hierarchy_finding hs_h3_finding)
qed

subsection \<open>Readability\<close>

lemma rd_sentence_points:
  "lo \<le> fst t \<and> fst t \<le> hi \<Longrightarrow>
   lo \<le> fst (rd_sentence_check ss t) \<and> fst (rd_sentence_check ss t) \<le> hi + rd_per_check"
  by (simp add: rd_sentence_check_def tally_points rd_per_check_def rd_weight_def Let_def)

lemma rd_paragraph_points:
  "lo \<le> fst t \<and> fst t \<le> hi \<Longrightarrow>
   lo \<le> fst (rd_paragraph_check L ps t) \<and> fst (rd_paragraph_check L ps t) \<le> hi + rd_per_check"
  by (simp add: rd_paragraph_check_def tally_points rd_per_check_def rd_weight_def Let_def)

lemma rd_variety_points:
  "lo \<le> fst t \<and> fst t \<le> hi \<Longrightarrow>
   lo \<le> fst (rd_variety_check ss t) \<and> fst (rd_variety_check ss t) \<le> hi + rd_per_check"
  by (simp add: rd_variety_check_def tally_points rd_per_check_def rd_weight_def Let_def)

lemma rd_sentence_findings:
  "fst (snd (rd_sentence_check ss t)) = [] \<longleftrightarrow> fst (snd t) = [] \<and> ss = []"
  by (simp add: rd_sentence_check_def tally_findings Let_def)

lemma rd_paragraph_findings:
  "fst (snd (rd_paragraph_check L ps t)) = [] \<longleftrightarrow> fst (snd t) = [] \<and> ps = []"
  by (simp add: rd_paragraph_check_def tally_findings Let_def)

lemma rd_variety_findings:
  "fst (snd (rd_variety_check ss t)) = [] \<longleftrightarrow> fst (snd t) = [] \<and> \<not> length ss > 3"
  by (simp add: rd_variety_check_def tally_findings Let_def)

lemma readability_result:
  "within_bounds (score_readability L body)
   \<and> (findings (score_readability L body) = [] \<longleftrightarrow>
        extract_sentences L body = [] \<and> extract_paragraphs body = [])"
proof -
  let ?ss = "extract_sentences L body"
  let ?ps = "extract_paragraphs body"
  let ?t = "rd_variety_check ?ss (rd_paragraph_check L ?ps (rd_sentence_check ?ss start))"
  have d: "score_readability L body = detail ''Readability'' 10 ?t"
    by (simp add: score_readability_def Let_def rd_weight_def)
  have "0 \<le> fst ?t \<and> fst ?t \<le> 0 + rd_per_check + rd_per_check + rd_per_check"
    by (intro rd_sentence_points rd_paragraph_points rd_variety_points) (simp add: tally_points)
  then have "within_bounds (score_readability L body)"
    unfolding d by (intro within_bounds_detail) (simp_all add: rd_per_check_def rd_weight_def)
  moreover have "fst (snd ?t) = [] \<longleftrightarrow> ?ss = [] \<and> ?ps = []"
    by (auto simp: rd_variety_findings rd_paragraph_findings rd_sentence_findings tally_findings)
  ultimately show ?thesis by (simp add: d detail_fields)
qed

subsection \<open>Local SEO\<close>

lemma ls_community_points:
  "lo \<le> fst t \<and> fst t \<le> hi \<Longrightarrow>
   lo \<le> fst (ls_community_check L c b t) \<and> fst (ls_community_check L c b t) \<le> hi + ls_per_check"
  by (simp add: ls_community_check_def tally_points ls_per_check_def ls_weight_def Let_def)

lemma ls_region_points:
  "lo \<le> fst t \<and> fst t \<le> hi \<Longrightarrow>
   lo \<le> fst (ls_region_check L b t) \<and> fst (ls_region_check L b t) \<le> hi + ls_per_check"
  by (simp add: ls_region_check_def tally_points ls_per_check_def ls_weight_def Let_def)

lemma ls_nearby_points:
  "lo \<le> fst t \<and> fst t \<le> hi \<Longrightarrow>
   lo \<le> fst (ls_nearby_check L c b t) \<and> fst (ls_nearby_check L c b t) \<le> hi + ls_per_check"
  by (simp add: ls_nearby_check_def tally_points ls_per_check_def ls_weight_def Let_def)

lemma ls_signal_points:
  "lo \<le> fst t \<and> fst t \<le> hi \<Longrightarrow>
   lo \<le> fst (ls_signal_check L b t) \<and> fst (ls_signal_check L b t) \<le> hi + ls_per_check"
  by (simp add: ls_signal_check_def tally_points ls_per_check_def ls_weight_def Let_def)

lemma ls_signal_finding: "fst (snd (ls_signal_check L b t)) \<noteq> []"
  by (simp add: ls_signal_check_def tally_findings Let_def)

lemma local_seo_result:
  "within_bounds (score_local_seo L body c) \<and> findings (score_local_seo L body c) \<noteq> []"
proof -
  let ?b = "str_lower L body"
  let ?t = "ls_signal_check L ?b (ls_nearby_check L c ?b (ls_region_check L ?b
              (ls_community_check L c ?b start)))"
  have d: "score_local_seo L body c = detail ''Local SEO'' 15 ?t"
    by (simp add: score_local_seo_def Let_def ls_weight_def)
  have "0 \<le> fst ?t \<and> fst ?t \<le> 0 + ls_per_check + ls_per_check + ls_per_check + ls_per_check"
    by (intro ls_community_points ls_region_points ls_nearby_points ls_signal_points)
      (simp add: tally_points)
  then have "within_bounds (score_local_seo L body c)"
    unfolding d by (intro within_bounds_detail) (simp_all add: ls_per_check_def ls_weight_def)
  then show ?thesis by (simp add: d detail_fields ls_signal_finding)
qed

subsection \<open>Meta description\<close>

lemma md_length_points_between:
  "lo \<le> fst t \<and> fst t \<le> hi \<Longrightarrow>
   lo \<le> fst (md_length_check n t) \<and> fst (md_length_check n t) \<le> hi + md_per_check"
  by (simp add: md_length_check_def tally_points md_per_check_def md_weight_def Let_def)

lemma md_keyword_points:
  "lo \<le> fst t \<and> fst t \<le> hi \<Longrightarrow>
   lo \<le> fst (md_keyword_check L k dl t) \<and> fst (md_keyword_check L k dl t) \<le> hi + md_per_check"
  by (simp add: md_keyword_check_def tally_points md_per_check_def md_weight_def)

lemma md_cta_points:
  "lo \<le> fst t \<and> fst t \<le> hi \<Longrightarrow>
   lo \<le> fst (md_cta_check L dl t) \<and> fst (md_cta_check L dl t) \<le> hi + md_per_check"
  by (simp add: md_cta_check_def tally_points md_per_check_def md_weight_def)

lemma md_generic_points:
  "lo \<le> fst t \<and> fst t \<le> hi \<Longrightarrow>
   lo \<le> fst (md_generic_check L dl n t) \<and> fst (md_generic_check L dl n t) \<le> hi + md_per_check"
  by (simp add: md_generic_check_def tally_points md_per_check_def md_weight_def Let_def)

lemma md_length_finding: "fst (snd (md_length_check n t)) \<noteq> []"
  by (simp add: md_length_check_def tally_findings Let_def)

lemma md_keyword_finding: "fst (snd t) \<noteq> [] \<Longrightarrow> fst (snd (md_keyword_check L k dl t)) \<noteq> []"
  by (simp add: md_keyword_check_def tally_findings)

lemma md_cta_finding: "fst (snd t) \<noteq> [] \<Longrightarrow> fst (snd (md_cta_check L dl t)) \<noteq> []"
  by (simp add: md_cta_check_def tally_findings)

lemma md_generic_finding: "fst (snd t) \<noteq> [] \<Longrightarrow> fst (snd (md_generic_check L dl n t)) \<noteq> []"
  by (simp add: md_generic_check_def tally_findings Let_def)

lemma meta_description_missing:
  assumes "\<not> has_field fm (u ''description'')"
  shows "score_meta_description L fm kw =
     Inr \<lparr> category = ''Meta Description'', score = 0, max_score = 10, percentage = 0,
           findings = [Message ''[x] No meta description found'' []],
           suggestions = [Message ''Add a meta description in frontmatter -- critical for search results CTR'' []] \<rparr>"
proof -
  have "\<not> truthy (dict_get fm (u ''description'') (YStr []))"
    using assms by (simp add: has_field_def dict_get_def split: option.splits)
  then show ?thesis by (simp add: score_meta_description_def Let_def md_weight_def)
qed

lemma meta_description_result:
  assumes "score_meta_description L fm kw = Inr d"
  shows "within_bounds d \<and> findings d \<noteq> []"
proof (cases "truthy (dict_get fm (u ''description'') (YStr []))")
  case False
  then have "d = \<lparr> category = ''Meta Description'', score = 0, max_score = 10, percentage = 0,
           findings = [Message ''[x] No meta description found'' []],
           suggestions = [Message ''Add a meta description in frontmatter -- critical for search results CTR'' []] \<rparr>"
    using assms by (simp add: score_meta_description_def Let_def md_weight_def)
  then show ?thesis by (simp add: within_bounds_def)
next
  case True
  then obtain n dl where d: "d = detail ''Meta Description'' 10
      (md_generic_check L dl n (md_cta_check L dl (md_keyword_check L kw dl (md_length_check n start))))"
    using assms
    by (auto simp: score_meta_description_def Let_def md_weight_def split: sum.splits)
  let ?t = "md_generic_check L dl n (md_cta_check L dl (md_keyword_check L kw dl (md_length_check n start)))"
  have "0 \<le> fst ?t \<and> fst ?t \<le> 0 + md_per_check + md_per_check + md_per_check + md_per_check"
    by (intro md_length_points_between md_keyword_points md_cta_points md_generic_points)
      (simp add: tally_points)
  then have "within_bounds d"
    unfolding d by (intro within_bounds_detail) (simp_all add: md_per_check_def md_weight_def)
  then show ?thesis
    by (simp add: d detail_fields md_generic_finding md_cta_finding md_keyword_finding md_length_finding)
qed

subsection \<open>Internal linking\<close>

lemma il_count_points:
  "lo \<le> fst t \<and> fst t \<le> hi \<Longrightarrow>
   lo \<le> fst (il_count_check a b t) \<and> fst (il_count_check a b t) \<le> hi + il_per_check"
  by (simp add: il_count_check_def tally_points il_per_check_def il_weight_def Let_def)

lemma il_service_points:
  "lo \<le> fst t \<and> fst t \<le> hi \<Longrightarrow>
   lo \<le> fst (il_service_check L ls t) \<and> fst (il_service_check L ls t) \<le> hi + il_per_check"
  by (simp add: il_service_check_def tally_points il_per_check_def il_weight_def Let_def)

lemma il_community_points:
  "lo \<le> fst t \<and> fst t \<le> hi \<Longrightarrow>
   lo \<le> fst (il_community_check L c ls t) \<and> fst (il_community_check L c ls t) \<le> hi + il_per_check"
  by (simp add: il_community_check_def tally_points il_per_check_def il_weight_def Let_def)

lemma il_count_finding: "fst (snd (il_count_check a b t)) \<noteq> []"
  by (simp add: il_count_check_def tally_findings Let_def)

lemma il_service_finding: "fst (snd t) \<noteq> [] \<Longrightarrow> fst (snd (il_service_check L ls t)) \<noteq> []"
  by (simp add: il_service_check_def tally_findings Let_def)

lemma il_community_finding: "fst (snd t) \<noteq> [] \<Longrightarrow> fst (snd (il_community_check L c ls t)) \<noteq> []"
  by (simp add: il_community_check_def tally_findings Let_def)

lemma internal_linking_result:
  "within_bounds (score_internal_linking L body c) \<and> findings (score_internal_linking L body c) \<noteq> []"
proof -
  obtain a b ls where d: "score_internal_linking L body c = detail ''Internal Linking'' 10
      (il_community_check L c ls (il_service_check L ls (il_count_check a b start)))"
    by (simp add: score_internal_linking_def Let_def il_weight_def)
  let ?t = "il_community_check L c ls (il_service_check L ls (il_count_check a b start))"
  have "0 \<le> fst ?t \<and> fst ?t \<le> 0 + il_per_check + il_per_check + il_per_check"
    by (intro il_count_points il_service_points il_community_points) (simp add: tally_points)
  then have "within_bounds (score_internal_linking L body c)"
    unfolding d by (intro within_bounds_detail) (simp_all add: il_per_check_def il_weight_def)
  then show ?thesis
    by (simp add: d detail_fields il_community_finding il_service_finding il_count_finding)
qed

subsection \<open>Content depth\<close>

lemma cd_section_points:
  "lo \<le> fst t \<and> fst t \<le> hi \<Longrightarrow>
   lo \<le> fst (cd_section_check n t) \<and> fst (cd_section_check n t) \<le> hi + cd_per_check"
  by (simp add: cd_section_check_def tally_points cd_per_check_def cd_weight_def Let_def)

lemma cd_stat_points:
  "lo \<le> fst t \<and> fst t \<le> hi \<Longrightarrow>
   lo \<le> fst (cd_stat_check L b t) \<and> fst (cd_stat_check L b t) \<le> hi + cd_per_check"
  by (simp add: cd_stat_check_def tally_points cd_per_check_def cd_weight_def Let_def)

lemma cd_faq_points:
  "lo \<le> fst t \<and> fst t \<le> hi \<Longrightarrow>
   lo \<le> fst (cd_faq_check L body b t) \<and> fst (cd_faq_check L body b t) \<le> hi + cd_per_check"
  by (simp add: cd_faq_check_def tally_points cd_per_check_def cd_weight_def Let_def)

lemma cd_comparison_points:
  "lo \<le> fst t \<and> fst t \<le> hi \<Longrightarrow>
   lo \<le> fst (cd_comparison_check L b t) \<and> fst (cd_comparison_check L b t) \<le> hi + cd_per_check"
  by (simp add: cd_comparison_check_def tally_points cd_per_check_def cd_weight_def)

lemma cd_faq_finding: "fst (snd (cd_faq_check L body b t)) \<noteq> []"
  by (simp add: cd_faq_check_def tally_findings Let_def)

lemma cd_comparison_finding: "fst (snd t) \<noteq> [] \<Longrightarrow> fst (snd (cd_comparison_check L b t)) \<noteq> []"
  by (simp add: cd_comparison_check_def tally_findings)

lemma content_depth_result:
  "within_bounds (score_content_depth L body) \<and> findings (score_content_depth L body) \<noteq> []"
proof -
  let ?hs = "extract_headings body"
  let ?b = "str_lower L body"
  let ?t = "cd_comparison_check L ?b (cd_faq_check L body ?b (cd_stat_check L ?b
              (cd_section_check (length (h2 ?hs) + length (h3 ?hs)) start)))"
  have d: "score_content_depth L body = detail ''Content Depth'' 10 ?t"
    by (simp add: score_content_depth_def Let_def cd_weight_def)
  have "0 \<le> fst ?t \<and> fst ?t \<le> 0 + cd_per_check + cd_per_check + cd_per_check + cd_per_check"
    by (intro cd_section_points cd_stat_points cd_faq_points cd_comparison_points)
      (simp add: tally_points)
  then have "within_bounds (score_content_depth L body)"
    unfolding d by (intro within_bounds_detail) (simp_all add: cd_per_check_def cd_weight_def)
  then show ?thesis by (simp add: d detail_fields cd_comparison_finding cd_faq_finding)
qed

subsection \<open>Word count, call to action, frontmatter\<close>

lemma word_count_result:
  "within_bounds (score_word_count_at wc) \<and> findings (score_word_count_at wc) \<noteq> []"
  by (simp add: score_word_count_at_def within_bounds_def Let_def wc_weight_def wc_target_min_def
      wc_target_max_def wc_hard_min_def wc_hard_max_def)

lemma cta_result:
  "within_bounds (score_cta_at n) \<and> findings (score_cta_at n) \<noteq> []"
  by (simp add: score_cta_at_def within_bounds_def detail_fields tally_points tally_findings
      Let_def cta_weight_def)

lemma frontmatter_result:
  "within_bounds (score_frontmatter fm) \<and> findings (score_frontmatter fm) \<noteq> []"
proof -
  have "length (filter (has_field fm) fm_required_fields) \<le> 7"
    using length_filter_le [of "has_field fm" fm_required_fields]
    by (simp add: fm_required_fields_def)
  then show ?thesis
    by (simp add: score_frontmatter_def within_bounds_def Let_def fm_weight_def fm_required_fields_def)
qed

section \<open>Findings that report a measured value\<close>

lemma kw_title_value:
  "list_ex reports_value (fst (snd (kw_title_check k kl ttl t))) = list_ex reports_value (fst (snd t))"
  by (simp add: kw_title_check_def tally_findings)

lemma kw_first_100_value:
  "list_ex reports_value (fst (snd (kw_first_100_check L k kl body t))) = list_ex reports_value (fst (snd t))"
  by (simp add: kw_first_100_check_def tally_findings Let_def)

lemma kw_headings_value:
  "list_ex reports_value (fst (snd (kw_headings_check L k kl body t))) = list_ex reports_value (fst (snd t))"
  by (simp add: kw_headings_check_def tally_findings Let_def)

lemma kw_density_value:
  "list_ex reports_value (fst (snd (kw_density_check L kl body t))) =
     (list_ex reports_value (fst (snd t)) \<or> count_words L body > 0)"
  by (simp add: kw_density_check_def tally_findings Let_def)

lemma kw_meta_value:
  "list_ex reports_value (fst (snd (kw_meta_check k kl ml t))) = list_ex reports_value (fst (snd t))"
  by (simp add: kw_meta_check_def tally_findings)

lemma keyword_value:
  assumes "score_keyword_optimization L body fm kw = Inr d"
  shows "category d = ''Keyword Optimization''
     \<and> (list_ex reports_value (findings d) \<longleftrightarrow> count_words L body > 0)"
proof -
  obtain ttl ml where d: "d = detail ''Keyword Optimization'' 15
      (kw_meta_check kw (str_lower L kw) ml
        (kw_density_check L (str_lower L kw) body
          (kw_headings_check L kw (str_lower L kw) body
            (kw_first_100_check L kw (str_lower L kw) body
              (kw_title_check kw (str_lower L kw) ttl start)))))"
    using assms
    by (auto simp: score_keyword_optimization_def Let_def kw_weight_def split: sum.splits)
  show ?thesis
    by (simp add: d detail_fields kw_meta_value kw_density_value kw_headings_value
        kw_first_100_value kw_title_value tally_findings)
qed

lemma hs_h3_value: "list_ex reports_value (fst (snd (hs_h3_check n t)))"
  by (simp add: hs_h3_check_def tally_findings Let_def)

lemma hs_hierarchy_value:
  "list_ex reports_value (fst (snd (hs_hierarchy_check body t))) = list_ex reports_value (fst (snd t))"
  by (simp add: hs_hierarchy_check_def tally_findings Let_def)

lemma heading_structure_value:
  "list_ex reports_value (findings (score_heading_structure body))"
  by (simp add: score_heading_structure_def Let_def detail_fields hs_hierarchy_value hs_h3_value)

lemma rd_sentence_value:
  "list_ex reports_value (fst (snd (rd_sentence_check ss t))) =
     (list_ex reports_value (fst (snd t)) \<or> ss \<noteq> [])"
  by (simp add: rd_sentence_check_def tally_findings Let_def)

lemma rd_paragraph_value:
  "list_ex reports_value (fst (snd (rd_paragraph_check L ps t))) =
     (list_ex reports_value (fst (snd t)) \<or> ps \<noteq> [])"
  by (simp add: rd_paragraph_check_def tally_findings Let_def)

lemma rd_variety_value:
  "list_ex reports_value (fst (snd (rd_variety_check ss t))) =
     (list_ex reports_value (fst (snd t)) \<or> length ss > 3)"
  by (simp add: rd_variety_check_def tally_findings Let_def)

lemma readability_value:
  "list_ex reports_value (findings (score_readability L body)) \<longleftrightarrow>
     extract_sentences L body \<noteq> [] \<or> extract_paragraphs body \<noteq> []"
  by (auto simp: score_readability_def Let_def detail_fields rd_variety_value rd_paragraph_value
      rd_sentence_value tally_findings)

lemma readability_unparsed:
  assumes "extract_sentences L body = []" and "extract_paragraphs body = []"
  shows "score (score_readability L body) = 0
     \<and> findings (score_readability L body) = []
     \<and> suggestions (score_readability L body) =
         [Message ''Could not parse sentences -- check content formatting'' []]"
  using assms
  by (simp add: score_readability_def Let_def detail_def rd_sentence_check_def
      rd_paragraph_check_def rd_variety_check_def suggest_def start_def)

lemma ls_signal_value: "list_ex reports_value (fst (snd (ls_signal_check L b t)))"
  by (simp add: ls_signal_check_def tally_findings Let_def)

lemma local_seo_value:
  "list_ex reports_value (findings (score_local_seo L body c))"
  by (simp add: score_local_seo_def Let_def detail_fields ls_signal_value)

lemma md_length_value: "list_ex reports_value (fst (snd (md_length_check n t)))"
  by (simp add: md_length_check_def tally_findings Let_def)

lemma md_keyword_value:
  "list_ex reports_value (fst (snd (md_keyword_check L k dl t))) = list_ex reports_value (fst (snd t))"
  by (simp add: md_keyword_check_def tally_findings)

lemma md_cta_value:
  "list_ex reports_value (fst (snd (md_cta_check L dl t))) = list_ex reports_value (fst (snd t))"
  by (simp add: md_cta_check_def tally_findings)

lemma md_generic_value:
  "list_ex reports_value (fst (snd (md_generic_check L dl n t))) = list_ex reports_value (fst (snd t))"
  by (simp add: md_generic_check_def tally_findings Let_def)

lemma has_field_truthy:
  "has_field fm k \<longleftrightarrow> truthy (dict_get fm k (YStr []))"
  by (simp add: has_field_def dict_get_def split: option.splits)

lemma meta_description_value:
  assumes "score_meta_description L fm kw = Inr d"
  shows "category d = ''Meta Description''
     \<and> (list_ex reports_value (findings d) \<longleftrightarrow> has_field fm (u ''description''))"
proof (cases "truthy (dict_get fm (u ''description'') (YStr []))")
  case False
  then have "d = \<lparr> category = ''Meta Description'', score = 0, max_score = 10, percentage = 0,
           findings = [Message ''[x] No meta description found'' []],
           suggestions = [Message ''Add a meta description in frontmatter -- critical for search results CTR'' []] \<rparr>"
    using assms by (simp add: score_meta_description_def Let_def md_weight_def)
  then show ?thesis using False by (simp add: has_field_truthy)
next
  case True
  then obtain n dl where d: "d = detail ''Meta Description'' 10
      (md_generic_check L dl n (md_cta_check L dl (md_keyword_check L kw dl (md_length_check n start))))"
    using assms
    by (auto simp: score_meta_description_def Let_def md_weight_def split: sum.splits)
  show ?thesis
    using True
    by (simp add: d detail_fields md_generic_value md_cta_value md_keyword_value md_length_value
        has_field_truthy)
qed

lemma il_count_value: "list_ex reports_value (fst (snd (il_count_check a b t)))"
  by (simp add: il_count_check_def tally_findings Let_def)

lemma il_service_value:
  "list_ex reports_value (fst (snd (il_service_check L ls t))) = list_ex reports_value (fst (snd t))"
  by (simp add: il_service_check_def tally_findings Let_def)

lemma il_community_value:
  "list_ex reports_value (fst (snd (il_community_check L c ls t))) = list_ex reports_value (fst (snd t))"
  by (simp add: il_community_check_def tally_findings Let_def)

lemma internal_linking_value:
  "list_ex reports_value (findings (score_internal_linking L body c))"
  by (simp add: score_internal_linking_def Let_def detail_fields il_community_value
      il_service_value il_count_value)

lemma cd_faq_value: "list_ex reports_value (fst (snd (cd_faq_check L body b t)))"
  by (simp add: cd_faq_check_def tally_findings Let_def)

lemma cd_comparison_value:
  "list_ex reports_value (fst (snd (cd_comparison_check L b t))) = list_ex reports_value (fst (snd t))"
  by (simp add: cd_comparison_check_def tally_findings)

lemma content_depth_value:
  "list_ex reports_value (findings (score_content_depth L body))"
  by (simp add: score_content_depth_def Let_def detail_fields cd_comparison_value cd_faq_value)

lemma word_count_value:
  "list_ex reports_value (findings (score_word_count_at wc))"
  by (simp add: score_word_count_at_def Let_def)

lemma cta_value:
  "list_ex reports_value (findings (score_cta_at n))"
  by (simp add: score_cta_at_def detail_fields tally_findings Let_def)

lemma frontmatter_value:
  "list_ex reports_value (findings (score_frontmatter fm))"
  by (simp add: score_frontmatter_def Let_def)

section \<open>Reports\<close>

lemma score_parsed_details:
  assumes "score_parsed L parsed body kw c i = Inr r"
  shows "\<exists>kvs kd md. parsed = YMap kvs
     \<and> score_keyword_optimization L body (map_of kvs) kw = Inr kd
     \<and> score_meta_description L (map_of kvs) kw = Inr md
     \<and> details r = [score_word_count L body, kd, score_heading_structure body,
          score_readability L body, score_local_seo L body c, md,
          score_internal_linking L body c, score_content_depth L body, score_cta L body,
          score_frontmatter (map_of kvs)]"
  using assms
  by (cases parsed) (auto simp: score_parsed_def Let_def split: sum.splits)

lemma score_post_parsed:
  assumes "score_post L doc kw c i = Inr r"
  shows "\<exists>pm body. parse_frontmatter L doc = Inr (pm, body) \<and> score_parsed L pm body kw c i = Inr r"
  using assms by (auto simp: score_post_def split: sum.splits)

lemma below_ten:
  "(\<forall>k<10. P (k::nat)) \<longleftrightarrow> P 0 \<and> P 1 \<and> P 2 \<and> P 3 \<and> P 4 \<and> P 5 \<and> P 6 \<and> P 7 \<and> P 8 \<and> P 9"
proof
  assume "\<forall>k<10. P k"
  then show "P 0 \<and> P 1 \<and> P 2 \<and> P 3 \<and> P 4 \<and> P 5 \<and> P 6 \<and> P 7 \<and> P 8 \<and> P 9" by simp
next
  assume a: "P 0 \<and> P 1 \<and> P 2 \<and> P 3 \<and> P 4 \<and> P 5 \<and> P 6 \<and> P 7 \<and> P 8 \<and> P 9"
  show "\<forall>k<10. P k"
  proof (intro allI impI)
    fix k :: nat
    assume "k < 10"
    then have "k = 0 \<or> k = 1 \<or> k = 2 \<or> k = 3 \<or> k = 4 \<or> k = 5 \<or> k = 6 \<or> k = 7 \<or> k = 8 \<or> k = 9"
      by arith
    with a show "P k" by auto
  qed
qed

text \<open>
  C2. Every category result has \<open>0 \<le> score \<le> max_score\<close> and
  \<open>percentage = score / max_score * 100\<close>, where the divisor is a positive configured
  weight and so never zero. This holds for each of the ten rules on every body and
  preamble, the empty ones included, and for the ten results of every report that
  \<open>score_post\<close> returns.
\<close>

theorem category_results_within_bounds:
  "within_bounds (score_word_count L body)
   \<and> (score_keyword_optimization L body fm kw = Inr kd \<longrightarrow> within_bounds kd)
   \<and> within_bounds (score_heading_structure body)
   \<and> within_bounds (score_readability L body)
   \<and> within_bounds (score_local_seo L body c)
   \<and> (score_meta_description L fm kw = Inr md \<longrightarrow> within_bounds md)
   \<and> within_bounds (score_internal_linking L body c)
   \<and> within_bounds (score_content_depth L body)
   \<and> within_bounds (score_cta L body)
   \<and> within_bounds (score_frontmatter fm)
   \<and> (score_post L doc kw c i = Inr r \<longrightarrow>
        length (details r) = 10 \<and> list_all within_bounds (details r))"
proof -
  have rules: "within_bounds (score_word_count L b)" "within_bounds (score_heading_structure b)"
    "within_bounds (score_readability L b)" "within_bounds (score_local_seo L b c)"
    "within_bounds (score_internal_linking L b c)" "within_bounds (score_content_depth L b)"
    "within_bounds (score_cta L b)" "within_bounds (score_frontmatter f)" for b f
    using word_count_result heading_structure_result readability_result local_seo_result
      internal_linking_result content_depth_result cta_result frontmatter_result
    by (simp_all add: score_word_count_def score_cta_def)
  have report: "length (details r) = 10 \<and> list_all within_bounds (details r)"
    if "score_post L doc kw c i = Inr r"
  proof -
    from score_post_parsed [OF that] obtain pm bd where
      parsed: "score_parsed L pm bd kw c i = Inr r"
      by blast
    obtain kvs kd' md' where
      "score_keyword_optimization L bd (map_of kvs) kw = Inr kd'"
      "score_meta_description L (map_of kvs) kw = Inr md'"
      "details r = [score_word_count L bd, kd',
          score_heading_structure bd,
          score_readability L bd,
          score_local_seo L bd c, md',
          score_internal_linking L bd c,
          score_content_depth L bd,
          score_cta L bd,
          score_frontmatter (map_of kvs)]"
      using score_parsed_details [OF parsed] by blast
    then show ?thesis
      using rules keyword_result meta_description_result by simp
  qed
  show ?thesis
    using rules report keyword_result meta_description_result by blast
qed

lemma empty_document_keyword:
  "\<exists>kd. score_keyword_optimization re_no_match [] Map.empty kw = Inr kd"
  by (simp add: score_keyword_optimization_def dict_get_def Let_def u_def newline_def)

lemma empty_document_meta:
  "\<exists>md. score_meta_description re_no_match Map.empty kw = Inr md"
  by (simp add: score_meta_description_def dict_get_def Let_def u_def newline_def)

lemma empty_document_report:
  "\<exists>r. score_post re_no_match [] kw c i = Inr r"
  using empty_document_keyword [of kw] empty_document_meta [of kw]
  by (auto simp: score_post_def parse_frontmatter_def re_no_match_def score_parsed_def Let_def u_def newline_def)

subsection \<open>The empty document\<close>

lemma empty_document_scores:
  "score (score_word_count re_no_match []) = 2"
  "score (score_heading_structure []) = 5"
  "score (score_readability re_no_match []) = 0"
  "score (score_content_depth re_no_match []) = 0.75"
  "score (score_cta re_no_match []) = 0"
  "score (score_frontmatter Map.empty) = 0"
  "score (score_local_seo re_no_match [] (u ''Powell'')) = 0"
  "score (score_internal_linking re_no_match [] (u ''Powell'')) = 0"
         apply (simp add: score_word_count_def count_words_def re_no_match_def split_ws_def wc_score_cases u_def newline_def)
        apply (simp add: score_heading_structure_def extract_headings_def split_on_def
      add_heading_line_def strip_def startswith_def Let_def detail_fields hs_h1_check_def
      hs_h2_check_def hs_h3_check_def hs_hierarchy_check_def hierarchy_line_def tally_points
      hs_per_check_def hs_weight_def hs_target_h2_count_min_def hs_target_h3_count_min_def u_def newline_def)
       apply (simp add: score_readability_def extract_sentences_def extract_paragraphs_def
      re_no_match_def split_on_def paragraph_line_def strip_def split_ws_def Let_def detail_fields
      rd_sentence_check_def rd_paragraph_check_def rd_variety_check_def tally_points u_def newline_def)
      apply (simp add: score_content_depth_def extract_headings_def split_on_def
      add_heading_line_def strip_def startswith_def Let_def detail_fields cd_section_check_def
      cd_stat_check_def cd_faq_check_def cd_comparison_check_def tally_points re_no_match_def
      cd_per_check_def cd_weight_def cd_target_unique_sections_def count_char_def ascii_lower_def u_def newline_def
      stat_patterns_def comparison_patterns_def)
     apply (simp add: score_cta_def score_cta_at_def re_no_match_def Let_def detail_fields
      tally_points cta_target_count_min_def cta_target_count_max_def)
    apply (simp add: score_frontmatter_def has_field_def fm_required_fields_def Let_def u_def newline_def)
   apply (simp add: score_local_seo_def Let_def detail_fields ls_community_check_def
      ls_region_check_def ls_nearby_check_def ls_signal_check_def tally_points re_no_match_def
      ascii_lower_def u_def newline_def ls_region_terms_def ls_community_mention_min_def local_signals_def
      other_communities_def communities_def)
  apply (simp add: score_internal_linking_def Let_def detail_fields il_count_check_def
      il_service_check_def il_community_check_def tally_points re_no_match_def
      il_target_min_links_def)
  done

lemma empty_document_keyword_score:
  "score_keyword_optimization re_no_match [] Map.empty (u ''living in Powell Ohio'') = Inr kd \<Longrightarrow>
   score kd = 0"
  by (auto simp add: score_keyword_optimization_def Let_def detail_fields dict_get_def
      kw_title_check_def kw_first_100_check_def kw_headings_check_def kw_density_check_def
      kw_meta_check_def tally_points count_words_def re_no_match_def split_ws_def ascii_lower_def u_def newline_def
      extract_headings_def split_on_def add_heading_line_def strip_def startswith_def)

lemma empty_document_meta_score:
  "score_meta_description re_no_match Map.empty (u ''living in Powell Ohio'') = Inr md \<Longrightarrow> score md = 0"
  by (auto simp add: score_meta_description_def Let_def dict_get_def u_def newline_def)

lemma score_parsed_totals:
  assumes "score_parsed L parsed body kw c i = Inr r"
  shows "total_score r = sum_list (map score (details r))
     \<and> max_possible r = sum_list (map max_score (details r))"
  using assms
  by (cases parsed) (auto simp: score_parsed_def Let_def split: sum.splits)

lemma empty_document_total:
  "\<exists>r. score_post re_no_match [] (u ''living in Powell Ohio'') (u ''Powell'') i = Inr r
      \<and> map score (details r) = [2, 0, 5, 0, 0, 0, 0, 3 / 4, 0, 0] \<and> total_score r = 31 / 4"
proof -
  obtain kd where kd: "score_keyword_optimization re_no_match [] Map.empty (u ''living in Powell Ohio'') = Inr kd"
    using empty_document_keyword by blast
  obtain md where md: "score_meta_description re_no_match Map.empty (u ''living in Powell Ohio'') = Inr md"
    using empty_document_meta by blast
  obtain r where r: "score_post re_no_match [] (u ''living in Powell Ohio'') (u ''Powell'') i = Inr r"
    using empty_document_report by blast
  have parsed: "score_parsed re_no_match (YMap []) [] (u ''living in Powell Ohio'') (u ''Powell'') i = Inr r"
    using r by (simp add: score_post_def parse_frontmatter_def re_no_match_def Let_def u_def newline_def)
  have ds: "details r = [score_word_count re_no_match [], kd, score_heading_structure [],
          score_readability re_no_match [], score_local_seo re_no_match [] (u ''Powell''), md,
          score_internal_linking re_no_match [] (u ''Powell''), score_content_depth re_no_match [],
          score_cta re_no_match [], score_frontmatter Map.empty]"
    using score_parsed_details [OF parsed] kd md by auto
  have scores: "map score (details r) = [2, 0, 5, 0, 0, 0, 0, 3 / 4, 0, 0]"
    using empty_document_scores empty_document_keyword_score [OF kd]
      empty_document_meta_score [OF md]
    by (simp add: ds)
  have "total_score r = 31 / 4"
    using score_parsed_totals [OF parsed] scores by simp
  then show ?thesis using r scores by simp
qed

theorem category_results_within_bounds_witness:
  "within_bounds (score_word_count re_no_match [])
   \<and> (\<exists>kd. score_keyword_optimization re_no_match [] Map.empty (u ''living in Powell Ohio'') = Inr kd
         \<and> within_bounds kd)
   \<and> (\<exists>md. score_meta_description re_no_match Map.empty (u ''living in Powell Ohio'') = Inr md
         \<and> within_bounds md)
   \<and> (\<exists>r. score_post re_no_match [] (u ''living in Powell Ohio'') (u ''Powell'') 0 = Inr r
         \<and> length (details r) = 10 \<and> list_all within_bounds (details r)
         \<and> map score (details r) = [2, 0, 5, 0, 0, 0, 0, 3 / 4, 0, 0]
         \<and> total_score r = 31 / 4)"
proof -
  obtain kd where kd: "score_keyword_optimization re_no_match [] Map.empty (u ''living in Powell Ohio'') = Inr kd"
    using empty_document_keyword by blast
  obtain md where md: "score_meta_description re_no_match Map.empty (u ''living in Powell Ohio'') = Inr md"
    using empty_document_meta by blast
  from empty_document_total [of 0] obtain r where
    r: "score_post re_no_match [] (u ''living in Powell Ohio'') (u ''Powell'') 0 = Inr r"
    and scores: "map score (details r) = [2, 0, 5, 0, 0, 0, 0, 3 / 4, 0, 0]"
    and total: "total_score r = 31 / 4"
    by (elim exE conjE)
  have b: "within_bounds (score_word_count re_no_match []) \<and> within_bounds kd \<and> within_bounds md
      \<and> length (details r) = 10 \<and> list_all within_bounds (details r)"
    using category_results_within_bounds [of re_no_match "[]" Map.empty "(u ''living in Powell Ohio'')" kd
        "(u ''Powell'')" md "[]" 0 r] kd md r
    by simp
  show ?thesis
  proof (intro conjI)
    show "within_bounds (score_word_count re_no_match [])" using b by (elim conjE)
    show "\<exists>kd. score_keyword_optimization re_no_match [] Map.empty (u ''living in Powell Ohio'') = Inr kd
         \<and> within_bounds kd"
      using kd b by (intro exI [of _ kd] conjI) (elim conjE, assumption)+
    show "\<exists>md. score_meta_description re_no_match Map.empty (u ''living in Powell Ohio'') = Inr md
         \<and> within_bounds md"
      using md b by (intro exI [of _ md] conjI) (elim conjE, assumption)+
    show "\<exists>r. score_post re_no_match [] (u ''living in Powell Ohio'') (u ''Powell'') 0 = Inr r
         \<and> length (details r) = 10 \<and> list_all within_bounds (details r)
         \<and> map score (details r) = [2, 0, 5, 0, 0, 0, 0, 3 / 4, 0, 0]
         \<and> total_score r = 31 / 4"
      using r scores total b by (intro exI [of _ r] conjI) (elim conjE, assumption)+
  qed
qed

text \<open>
  C8, as the code has it. Nine of the ten rules always report at least one finding, and
  seven of them (word count, heading structure, local SEO, internal linking, content
  depth, call to action, frontmatter) always report a measured value among them. The
  keyword rule reports a measured value exactly when the body has words, the meta
  description rule exactly when the preamble has a description. The readability rule
  reports no finding exactly when the body yields no sentence and no paragraph, as the
  empty body does; its score is then 0 and its only suggestion is that the sentences
  could not be parsed; whenever it reports a finding, it reports a measured value.
\<close>

theorem findings_nonempty:
  "findings (score_word_count L body) \<noteq> []
   \<and> (score_keyword_optimization L body fm kw = Inr kd \<longrightarrow> findings kd \<noteq> [])
   \<and> findings (score_heading_structure body) \<noteq> []
   \<and> (findings (score_readability L body) = [] \<longleftrightarrow>
        extract_sentences L body = [] \<and> extract_paragraphs body = [])
   \<and> findings (score_local_seo L body c) \<noteq> []
   \<and> (score_meta_description L fm kw = Inr md \<longrightarrow> findings md \<noteq> [])
   \<and> findings (score_internal_linking L body c) \<noteq> []
   \<and> findings (score_content_depth L body) \<noteq> []
   \<and> findings (score_cta L body) \<noteq> []
   \<and> findings (score_frontmatter fm) \<noteq> []
   \<and> (score_post L doc kw c i = Inr r \<longrightarrow>
        category (details r ! 3) = ''Readability''
        \<and> (\<forall>k<10. k \<noteq> 3 \<longrightarrow> findings (details r ! k) \<noteq> [])
        \<and> list_all (\<lambda>k. list_ex reports_value (findings (details r ! k))) [0, 2, 4, 6, 7, 8, 9])
   \<and> (extract_sentences L body = [] \<and> extract_paragraphs body = [] \<longrightarrow>
        score (score_readability L body) = 0
        \<and> suggestions (score_readability L body) =
            [Message ''Could not parse sentences -- check content formatting'' []])
   \<and> (list_ex reports_value (findings (score_readability L body)) \<longleftrightarrow>
        findings (score_readability L body) \<noteq> [])
   \<and> list_ex reports_value (findings (score_word_count L body))
   \<and> list_ex reports_value (findings (score_heading_structure body))
   \<and> list_ex reports_value (findings (score_local_seo L body c))
   \<and> list_ex reports_value (findings (score_internal_linking L body c))
   \<and> list_ex reports_value (findings (score_content_depth L body))
   \<and> list_ex reports_value (findings (score_cta L body))
   \<and> list_ex reports_value (findings (score_frontmatter fm))
   \<and> (score_keyword_optimization L body fm kw = Inr kd \<longrightarrow>
        (list_ex reports_value (findings kd) \<longleftrightarrow> count_words L body > 0))
   \<and> (score_meta_description L fm kw = Inr md \<longrightarrow>
        (list_ex reports_value (findings md) \<longleftrightarrow> has_field fm (u ''description'')))"
proof -
  have rules: "findings (score_word_count L b) \<noteq> []" "findings (score_heading_structure b) \<noteq> []"
    "findings (score_local_seo L b c) \<noteq> []"
    "findings (score_internal_linking L b c) \<noteq> []" "findings (score_content_depth L b) \<noteq> []"
    "findings (score_cta L b) \<noteq> []" "findings (score_frontmatter f) \<noteq> []" for b f
    using word_count_result heading_structure_result local_seo_result
      internal_linking_result content_depth_result cta_result frontmatter_result
    by (simp_all add: score_word_count_def score_cta_def)
  have vals: "list_ex reports_value (findings (score_word_count L b))"
    "list_ex reports_value (findings (score_heading_structure b))"
    "list_ex reports_value (findings (score_local_seo L b c))"
    "list_ex reports_value (findings (score_internal_linking L b c))"
    "list_ex reports_value (findings (score_content_depth L b))"
    "list_ex reports_value (findings (score_cta L b))"
    "list_ex reports_value (findings (score_frontmatter f))" for b f
    using word_count_value heading_structure_value local_seo_value
      internal_linking_value content_depth_value cta_value frontmatter_value
    by (simp_all add: score_word_count_def score_cta_def)
  have report: "category (details r ! 3) = ''Readability''
        \<and> (\<forall>k<10. k \<noteq> 3 \<longrightarrow> findings (details r ! k) \<noteq> [])
        \<and> list_all (\<lambda>k. list_ex reports_value (findings (details r ! k))) [0, 2, 4, 6, 7, 8, 9]"
    if "score_post L doc kw c i = Inr r"
  proof -
    from score_post_parsed [OF that] obtain pm bd where
      parsed: "score_parsed L pm bd kw c i = Inr r"
      by blast
    obtain kvs kd' md' where
      "score_keyword_optimization L bd (map_of kvs) kw = Inr kd'"
      "score_meta_description L (map_of kvs) kw = Inr md'"
      "details r = [score_word_count L bd, kd', score_heading_structure bd,
          score_readability L bd, score_local_seo L bd c, md',
          score_internal_linking L bd c, score_content_depth L bd, score_cta L bd,
          score_frontmatter (map_of kvs)]"
      using score_parsed_details [OF parsed] by blast
    then show ?thesis
      using rules vals keyword_result meta_description_result
      by (simp add: below_ten score_readability_def Let_def detail_fields)
  qed
  have rd: "list_ex reports_value (findings (score_readability L body)) \<longleftrightarrow>
        findings (score_readability L body) \<noteq> []"
    using readability_value [of L body] readability_result [of L body] by simp
  have un: "score (score_readability L body) = 0
        \<and> suggestions (score_readability L body) =
            [Message ''Could not parse sentences -- check content formatting'' []]"
    if "extract_sentences L body = [] \<and> extract_paragraphs body = []"
    using readability_unparsed [of L body] that by simp
  show ?thesis
    using rules vals report rd un keyword_result keyword_value meta_description_result
      meta_description_value readability_result
    by (intro conjI impI) simp_all
qed

text \<open>
  On the empty document the readability result has no finding, only the suggestion that
  the sentences could not be parsed, and it is the only category of the report without a
  finding; the findings of the keyword and meta description results are check marks with
  no measured value.
\<close>

theorem empty_body_counterexample:
  "findings (score_readability re_no_match []) = []
   \<and> empty_findings (score_post re_no_match [] (u ''living in Powell Ohio'') (u ''Powell'') 0) = [''Readability'']
   \<and> suggestions (score_readability re_no_match []) =
       [Message ''Could not parse sentences -- check content formatting'' []]
   \<and> valueless_findings (score_post re_no_match [] (u ''living in Powell Ohio'') (u ''Powell'') 0) =
       [''Keyword Optimization'', ''Readability'', ''Meta Description'']"
proof -
  have s: "extract_sentences re_no_match [] = []"
    by (simp add: extract_sentences_def re_no_match_def Let_def strip_def split_ws_def u_def newline_def)
  have p: "extract_paragraphs [] = []"
    by (simp add: extract_paragraphs_def split_on_def paragraph_line_def strip_def Let_def u_def newline_def)
  have rd: "findings (score_readability re_no_match []) = []"
    using readability_result [of re_no_match "[]"] s p by simp
  have rdv: "\<not> list_ex reports_value (findings (score_readability re_no_match []))"
    using rd by simp
  have sg: "suggestions (score_readability re_no_match []) =
       [Message ''Could not parse sentences -- check content formatting'' []]"
    using readability_unparsed [OF s p] by simp
  have rdc: "category (score_readability re_no_match []) = ''Readability''"
    by (simp add: score_readability_def Let_def detail_fields)
  obtain r where r: "score_post re_no_match [] (u ''living in Powell Ohio'') (u ''Powell'') 0 = Inr r"
    using empty_document_report by blast
  have parsed: "score_parsed re_no_match (YMap []) [] (u ''living in Powell Ohio'') (u ''Powell'') 0 = Inr r"
    using r by (simp add: score_post_def parse_frontmatter_def re_no_match_def Let_def u_def newline_def)
  obtain kd md where
    kd: "score_keyword_optimization re_no_match [] (map_of []) (u ''living in Powell Ohio'') = Inr kd" and
    md: "score_meta_description re_no_match (map_of []) (u ''living in Powell Ohio'') = Inr md" and
    ds: "details r = [score_word_count re_no_match [], kd, score_heading_structure [],
          score_readability re_no_match [], score_local_seo re_no_match [] (u ''Powell''), md,
          score_internal_linking re_no_match [] (u ''Powell''), score_content_depth re_no_match [],
          score_cta re_no_match [], score_frontmatter (map_of [])]"
    using score_parsed_details [OF parsed] by auto
  have wc: "count_words re_no_match [] = 0"
    by (simp add: count_words_def re_no_match_def split_ws_def u_def newline_def)
  have kdv: "category kd = ''Keyword Optimization'' \<and> \<not> list_ex reports_value (findings kd)"
    using keyword_value [OF kd] wc by simp
  have mdv: "category md = ''Meta Description'' \<and> \<not> list_ex reports_value (findings md)"
    using meta_description_value [OF md] by (simp add: has_field_def u_def newline_def)
  have e: "empty_findings (Inr r) = [''Readability'']"
    using word_count_result heading_structure_result local_seo_result
      internal_linking_result content_depth_result cta_result frontmatter_result
      keyword_result [OF kd] meta_description_result [OF md] rd rdc
    by (simp add: empty_findings_def ds score_word_count_def score_cta_def)
  have v: "valueless_findings (Inr r) =
       [''Keyword Optimization'', ''Readability'', ''Meta Description'']"
    using word_count_value heading_structure_value local_seo_value
      internal_linking_value content_depth_value cta_value frontmatter_value
      kdv mdv rdv rdc
    by (simp add: valueless_findings_def ds score_word_count_def score_cta_def)
  show ?thesis using rd sg e v r by simp
qed

text \<open>
  C6. Called on a preamble with no description, or an empty one, the meta description
  rule returns the score 0 with exactly one finding and exactly one suggestion, whatever
  the library and the keyword are; the same holds for the meta description result of
  every report that \<open>score_post\<close> returns. But a document need not get a report: a
  description written with no value is empty and parses to null, and the keyword rule,
  which runs before the meta description rule, calls \<open>lower\<close> on it and raises
  \<open>AttributeError\<close>. So does a document with no description whose title is null.
\<close>

theorem missing_description_handling:
  "(\<not> has_field fm (u ''description'') \<longrightarrow>
      (\<exists>d. score_meta_description L fm kw = Inr d \<and> score d = 0
            \<and> length (findings d) = 1 \<and> length (suggestions d) = 1))
   \<and> (\<not> has_field (map_of kvs) (u ''description'')
        \<and> parse_frontmatter L doc = Inr (YMap kvs, body)
        \<and> score_post L doc kw c i = Inr r \<longrightarrow>
      category (details r ! 5) = ''Meta Description'' \<and> score (details r ! 5) = 0
      \<and> length (findings (details r ! 5)) = 1 \<and> length (suggestions (details r ! 5)) = 1)
   \<and> \<not> has_field (map_of [((u ''description''), YNull)]) (u ''description'')
   \<and> score_parsed L (YMap [((u ''description''), YNull)]) body kw c i = Inl AttributeError
   \<and> \<not> has_field (map_of [((u ''title''), YNull)]) (u ''description'')
   \<and> score_parsed L (YMap [((u ''title''), YNull)]) body kw c i = Inl AttributeError
   \<and> (re_match_dotall L frontmatter_pattern doc = Some (pre, body)
        \<and> yaml_safe_load L pre = Inr (YMap [((u ''description''), YNull)]) \<longrightarrow>
      score_post L doc kw c i = Inl AttributeError)"
proof -
  have m: "\<exists>d. score_meta_description L f kw = Inr d \<and> score d = 0
            \<and> length (findings d) = 1 \<and> length (suggestions d) = 1"
    if "\<not> has_field f (u ''description'')" for f
    using meta_description_missing [OF that, of L kw] by simp
  have rep: "category (details r ! 5) = ''Meta Description'' \<and> score (details r ! 5) = 0
        \<and> length (findings (details r ! 5)) = 1 \<and> length (suggestions (details r ! 5)) = 1"
    if f: "\<not> has_field (map_of kvs) (u ''description'')"
      and p: "parse_frontmatter L doc = Inr (YMap kvs, body)"
      and r: "score_post L doc kw c i = Inr r"
  proof -
    have "score_parsed L (YMap kvs) body kw c i = Inr r"
      using r p by (simp add: score_post_def)
    from score_parsed_details [OF this] obtain md where
      "score_meta_description L (map_of kvs) kw = Inr md" "details r ! 5 = md"
      by auto
    then show ?thesis using meta_description_missing [OF f, of L kw] by auto
  qed
  have raise: "score_parsed L (YMap [((u ''description''), YNull)]) body kw c i = Inl AttributeError"
    "score_parsed L (YMap [((u ''title''), YNull)]) body kw c i = Inl AttributeError"
    by (simp_all add: score_parsed_def score_keyword_optimization_def dict_get_def Let_def u_def newline_def)
  have doc: "score_post L doc kw c i = Inl AttributeError"
    if "re_match_dotall L frontmatter_pattern doc = Some (pre, body)
        \<and> yaml_safe_load L pre = Inr (YMap [((u ''description''), YNull)])"
    using that raise by (simp add: score_post_def parse_frontmatter_def u_def newline_def)
  show ?thesis
    using m [of fm] rep raise doc by (simp add: has_field_def u_def newline_def)
qed

theorem missing_description_handling_witness:
  "(\<exists>d. score_meta_description re_no_match [(u ''title'') \<mapsto> YStr (u ''Living in Powell''),
            (u ''description'') \<mapsto> YNull] (u ''living in Powell Ohio'') = Inr d \<and> score d = 0
          \<and> length (findings d) = 1 \<and> length (suggestions d) = 1)
   \<and> (\<exists>r. score_post re_no_match [] (u ''living in Powell Ohio'') (u ''Powell'') 0 = Inr r
          \<and> category (details r ! 5) = ''Meta Description'' \<and> score (details r ! 5) = 0
          \<and> length (findings (details r ! 5)) = 1 \<and> length (suggestions (details r ! 5)) = 1)
   \<and> score_post (re_no_match \<lparr> re_match_dotall := (\<lambda>p t. Some ((u ''description:''), (u ''Powell is a city.''))),
         yaml_safe_load := (\<lambda>t. Inr (YMap [((u ''description''), YNull)])) \<rparr>)
       ((u ''---'') @ [newline] @ (u ''description:'') @ [newline] @ (u ''---'') @ [newline] @ (u ''Powell is a city.''))
       (u ''living in Powell Ohio'') (u ''Powell'') 0 = Inl AttributeError"
proof -
  have a: "\<not> has_field [(u ''title'') \<mapsto> YStr (u ''Living in Powell''), (u ''description'') \<mapsto> YNull] (u ''description'')"
    by (simp add: has_field_def u_def newline_def)
  have b: "\<not> has_field (map_of []) (u ''description'')"
    by (simp add: has_field_def u_def newline_def)
  obtain r where r: "score_post re_no_match [] (u ''living in Powell Ohio'') (u ''Powell'') 0 = Inr r"
    using empty_document_report by blast
  have p: "parse_frontmatter re_no_match [] = Inr (YMap [], [])"
    by (simp add: parse_frontmatter_def re_no_match_def u_def newline_def)
  show ?thesis
    using missing_description_handling [of
        "[(u ''title'') \<mapsto> YStr (u ''Living in Powell''), (u ''description'') \<mapsto> YNull]"
        re_no_match "(u ''living in Powell Ohio'')" "[]" "[]" "[]" "(u ''Powell'')" 0 r]
      missing_description_handling [of Map.empty
        "re_no_match \<lparr> re_match_dotall := (\<lambda>p t. Some ((u ''description:''), (u ''Powell is a city.''))),
         yaml_safe_load := (\<lambda>t. Inr (YMap [((u ''description''), YNull)])) \<rparr>"
        "(u ''living in Powell Ohio'')" "[]"
        "(u ''---'') @ [newline] @ (u ''description:'') @ [newline] @ (u ''---'') @ [newline] @ (u ''Powell is a city.'')"
        "(u ''Powell is a city.'')" "(u ''Powell'')" 0 r "(u ''description:'')"]
      a b r p
    by simp
qed

text \<open>
  C5. Scoring raises on some preambles. A title or a description written with no value
  parses to null, and the keyword rule calls \<open>lower\<close> on it: \<open>AttributeError\<close>. A
  preamble that parses to a bare string has no \<open>get\<close>: \<open>AttributeError\<close> again. And
  an exception of the YAML parser other than \<open>YAMLError\<close>, such as the \<open>ValueError\<close>
  of an impossible date, is not caught. In each case \<open>score_post\<close> returns no report.
\<close>

theorem null_preamble_value_raises:
  "score_keyword_optimization L body [(u ''title'') \<mapsto> YNull] kw = Inl AttributeError
   \<and> score_parsed L (YMap [((u ''title''), YNull)]) body kw c i = Inl AttributeError
   \<and> score_parsed L (YMap [((u ''description''), YNull)]) body kw c i = Inl AttributeError
   \<and> score_parsed L (YStr (u ''Living in Powell'')) body kw c i = Inl AttributeError
   \<and> (re_match_dotall L frontmatter_pattern doc = Some (pre, body)
        \<and> yaml_safe_load L pre = Inr (YMap [((u ''title''), YNull)]) \<longrightarrow>
      score_post L doc kw c i = Inl AttributeError)
   \<and> (re_match_dotall L frontmatter_pattern doc = Some (pre, body)
        \<and> yaml_safe_load L pre = Inl ValueError \<longrightarrow>
      score_post L doc kw c i = Inl ValueError)"
  by (simp add: score_post_def parse_frontmatter_def score_parsed_def
      score_keyword_optimization_def dict_get_def Let_def u_def newline_def)

theorem null_preamble_value_raises_witness:
  "score_post (re_no_match \<lparr> re_match_dotall := (\<lambda>p t. Some ((u ''title:''), (u ''Powell is a city.''))),
       yaml_safe_load := (\<lambda>t. Inr (YMap [((u ''title''), YNull)])) \<rparr>)
     ((u ''---'') @ [newline] @ (u ''title:'') @ [newline] @ (u ''---'') @ [newline] @ (u ''Powell is a city.''))
     (u ''living in Powell Ohio'') (u ''Powell'') 0 = Inl AttributeError
   \<and> score_post (re_no_match \<lparr> re_match_dotall := (\<lambda>p t. Some ((u ''date: 2026-13-45''), (u ''Powell is a city.''))),
       yaml_safe_load := (\<lambda>t. Inl ValueError) \<rparr>)
     ((u ''---'') @ [newline] @ (u ''date: 2026-13-45'') @ [newline] @ (u ''---'') @ [newline] @ (u ''Powell is a city.''))
     (u ''living in Powell Ohio'') (u ''Powell'') 0 = Inl ValueError"
  using null_preamble_value_raises [of
      "re_no_match \<lparr> re_match_dotall := (\<lambda>p t. Some ((u ''title:''), (u ''Powell is a city.''))),
       yaml_safe_load := (\<lambda>t. Inr (YMap [((u ''title''), YNull)])) \<rparr>"
      "(u ''Powell is a city.'')" "(u ''living in Powell Ohio'')" "(u ''Powell'')" 0
      "(u ''---'') @ [newline] @ (u ''title:'') @ [newline] @ (u ''---'') @ [newline] @ (u ''Powell is a city.'')"
      "(u ''title:'')"]
    null_preamble_value_raises [of
      "re_no_match \<lparr> re_match_dotall := (\<lambda>p t. Some ((u ''date: 2026-13-45''), (u ''Powell is a city.''))),
       yaml_safe_load := (\<lambda>t. Inl ValueError) \<rparr>"
      "(u ''Powell is a city.'')" "(u ''living in Powell Ohio'')" "(u ''Powell'')" 0
      "(u ''---'') @ [newline] @ (u ''date: 2026-13-45'') @ [newline] @ (u ''---'') @ [newline] @ (u ''Powell is a city.'')"
      "(u ''date: 2026-13-45'')"]
  by simp

theorem findings_nonempty_witness:
  "findings (score_word_count re_no_match []) \<noteq> []
   \<and> findings (score_readability re_no_match []) = []
   \<and> (\<exists>kd. score_keyword_optimization re_no_match [] Map.empty (u ''living in Powell Ohio'') = Inr kd
          \<and> findings kd \<noteq> [] \<and> \<not> list_ex reports_value (findings kd))
   \<and> (\<exists>md. score_meta_description re_no_match Map.empty (u ''living in Powell Ohio'') = Inr md
          \<and> findings md \<noteq> [] \<and> \<not> list_ex reports_value (findings md))
   \<and> (\<exists>r. score_post re_no_match [] (u ''living in Powell Ohio'') (u ''Powell'') 0 = Inr r
          \<and> category (details r ! 3) = ''Readability''
          \<and> findings (details r ! 0) \<noteq> [] \<and> findings (details r ! 1) \<noteq> []
          \<and> findings (details r ! 5) \<noteq> [] \<and> findings (details r ! 9) \<noteq> []
          \<and> list_ex reports_value (findings (details r ! 0))
          \<and> list_ex reports_value (findings (details r ! 9)))
   \<and> score (score_readability re_no_match []) = 0
   \<and> suggestions (score_readability re_no_match []) =
       [Message ''Could not parse sentences -- check content formatting'' []]
   \<and> list_ex reports_value (findings (score_word_count re_no_match []))"
proof -
  have s: "extract_sentences re_no_match [] = []"
    by (simp add: extract_sentences_def re_no_match_def Let_def strip_def split_ws_def u_def newline_def)
  have p: "extract_paragraphs [] = []"
    by (simp add: extract_paragraphs_def split_on_def paragraph_line_def strip_def Let_def u_def newline_def)
  have wc: "count_words re_no_match [] = 0"
    by (simp add: count_words_def re_no_match_def split_ws_def u_def newline_def)
  have f: "\<not> has_field Map.empty (u ''description'')"
    by (simp add: has_field_def u_def newline_def)
  obtain kd where kd: "score_keyword_optimization re_no_match [] Map.empty (u ''living in Powell Ohio'') = Inr kd"
    using empty_document_keyword by blast
  obtain md where md: "score_meta_description re_no_match Map.empty (u ''living in Powell Ohio'') = Inr md"
    using empty_document_meta by blast
  obtain r where r: "score_post re_no_match [] (u ''living in Powell Ohio'') (u ''Powell'') 0 = Inr r"
    using empty_document_report by blast
  show ?thesis
    using findings_nonempty [of re_no_match "[]" Map.empty "(u ''living in Powell Ohio'')" kd
        "(u ''Powell'')" md "[]" 0 r] kd md r s p wc f
    by simp
qed

section \<open>The optimization loop\<close>

lemma improvement_iteration_effect:
  assumes "improvement_iteration sc C kw cm i s = Inr s'"
  shows "revise C (content s) (report s) kw cm i = Inr (content s')
     \<and> sc (content s') kw cm i = Inr (report s')
     \<and> history s' = history s @
          [\<lparr> rec_iteration = i, rec_score = total_score (report s'),
             rec_percentage = percentage (report s'),
             rec_improvement = Some (total_score (report s') - total_score (report s)),
             rec_category_scores = category_scores (report s') \<rparr>]
     \<and> files s' = (files s)(VersionMd i \<mapsto> content s')
     \<and> (if total_score (report s') > best_score s
         then best_content s' = content s' \<and> best_score s' = total_score (report s')
              \<and> best_iteration s' = i \<and> plateau_count s' = 0
         else best_content s' = best_content s \<and> best_score s' = best_score s
              \<and> best_iteration s' = best_iteration s \<and> plateau_count s' = plateau_count s + 1)"
  using assms
  by (auto simp: improvement_iteration_def Let_def split: sum.splits if_splits)

lemma improvement_iteration_tracked:
  assumes step: "improvement_iteration sc C kw cm i s = Inr s'"
    and i: "i = int (length (history s))"
    and inv: "best_tracked s"
  shows "best_tracked s' \<and> length (history s') = Suc (length (history s))"
proof -
  note e = improvement_iteration_effect [OF step]
  let ?new = "total_score (report s')"
  have len: "length (history s') = Suc (length (history s))" using e by simp
  have last: "rec_score (history s' ! length (history s)) = ?new" using e by simp
  have old: "rec_score (history s' ! j) = rec_score (history s ! j)" if "j < length (history s)" for j
    using e that by (simp add: nth_append)
  show ?thesis
  proof (cases "?new > best_score s")
    case True
    then have b: "best_content s' = content s'" "best_score s' = ?new" "best_iteration s' = i"
      "plateau_count s' = 0"
      using e by simp_all
    have "\<forall>j < length (history s'). rec_score (history s' ! j) \<le> ?new"
    proof (intro allI impI)
      fix j assume "j < length (history s')"
      then consider "j < length (history s)" | "j = length (history s)" using len by linarith
      then show "rec_score (history s' ! j) \<le> ?new"
      proof cases
        case 1
        then show ?thesis using old [OF 1] inv True by (auto simp: best_tracked_def)
      next
        case 2
        then show ?thesis using last by simp
      qed
    qed
    moreover have "\<forall>j < length (history s). rec_score (history s' ! j) < ?new"
      using old inv True by (auto simp: best_tracked_def)
    moreover have "files s' (VersionMd i) = Some (content s')" using e by simp
    ultimately show ?thesis
      using b i len last by (simp add: best_tracked_def)
  next
    case False
    then have b: "best_content s' = best_content s" "best_score s' = best_score s"
      "best_iteration s' = best_iteration s" "plateau_count s' = plateau_count s + 1"
      using e by simp_all
    have lt: "nat (best_iteration s) < length (history s)" "0 \<le> best_iteration s"
      using inv by (simp_all add: best_tracked_def)
    have "\<forall>j < length (history s'). rec_score (history s' ! j) \<le> best_score s"
    proof (intro allI impI)
      fix j assume "j < length (history s')"
      then consider "j < length (history s)" | "j = length (history s)" using len by linarith
      then show "rec_score (history s' ! j) \<le> best_score s"
      proof cases
        case 1
        then show ?thesis using old [OF 1] inv by (auto simp: best_tracked_def)
      next
        case 2
        then show ?thesis using last False by simp
      qed
    qed
    moreover have "\<forall>j < nat (best_iteration s). rec_score (history s' ! j) < best_score s"
      using old lt inv by (auto simp: best_tracked_def)
    moreover have "rec_score (history s' ! nat (best_iteration s)) = best_score s"
      using old [OF lt(1)] inv by (simp add: best_tracked_def)
    moreover have "files s' (VersionMd (best_iteration s)) = Some (best_content s)"
      using e inv lt i by (auto simp: best_tracked_def)
    moreover have "plateau_count s' = int (length (history s')) - 1 - best_iteration s"
      using b len inv by (simp add: best_tracked_def)
    ultimately show ?thesis
      using b len lt by (simp add: best_tracked_def)
  qed
qed

lemma passes_tracked:
  "passes sc C kw cm i k s = Inr s' \<Longrightarrow> i = int (length (history s)) \<Longrightarrow> best_tracked s \<Longrightarrow>
   best_tracked s' \<and> length (history s') = length (history s) + k"
proof (induction k arbitrary: i s)
  case 0
  then show ?case by simp
next
  case (Suc k)
  from Suc.prems(1) obtain s1 where
    s1: "improvement_iteration sc C kw cm i s = Inr s1" and
    rest: "passes sc C kw cm (i + 1) k s1 = Inr s'"
    by (auto split: sum.splits)
  have t1: "best_tracked s1 \<and> length (history s1) = Suc (length (history s))"
    using improvement_iteration_tracked [OF s1 Suc.prems(2) Suc.prems(3)] .
  then have "i + 1 = int (length (history s1))" using Suc.prems(2) by simp
  from Suc.IH [OF rest this] t1 show ?case by simp
qed

lemma loop_passes:
  "improvement_loop cfg sc C kw cm [i..n] s = Inr s' \<Longrightarrow>
   \<exists>k. passes sc C kw cm i k s = Inr s' \<and> int k \<le> max 0 (n - i + 1)
     \<and> (int k = max 0 (n - i + 1) \<or> (0 < k \<and> plateau_patience cfg \<le> plateau_count s'))
     \<and> (\<forall>j. 0 < j \<and> j < k \<longrightarrow>
           (\<exists>sj. passes sc C kw cm i j s = Inr sj \<and> plateau_count sj < plateau_patience cfg))"
proof (induction "nat (n + 1 - i)" arbitrary: i s)
  case 0
  then have "[i..n] = []" by simp
  with "0.prems" have "s' = s" by simp
  then have "passes sc C kw cm i 0 s = Inr s' \<and> int 0 \<le> max 0 (n - i + 1)
     \<and> (int 0 = max 0 (n - i + 1) \<or> (0 < (0::nat) \<and> plateau_patience cfg \<le> plateau_count s'))
     \<and> (\<forall>j. 0 < j \<and> j < (0::nat) \<longrightarrow>
           (\<exists>sj. passes sc C kw cm i j s = Inr sj \<and> plateau_count sj < plateau_patience cfg))"
    using "0.hyps" by simp
  then show ?case by blast
next
  case (Suc m)
  then have le: "i \<le> n" by linarith
  then have unfold: "[i..n] = i # [i + 1..n]" by (simp add: upto.simps)
  from Suc.prems unfold obtain s1 where
    s1: "improvement_iteration sc C kw cm i s = Inr s1" and
    rest: "(if plateau_patience cfg \<le> plateau_count s1 then Inr s1
            else improvement_loop cfg sc C kw cm [i + 1..n] s1) = Inr s'"
    by (auto split: sum.splits)
  have one: "passes sc C kw cm i 1 s = Inr s1" using s1 by simp
  show ?case
  proof (cases "plateau_patience cfg \<le> plateau_count s1")
    case True
    then have "s' = s1" using rest by simp
    then have "passes sc C kw cm i 1 s = Inr s' \<and> int 1 \<le> max 0 (n - i + 1)
     \<and> (int 1 = max 0 (n - i + 1) \<or> (0 < (1::nat) \<and> plateau_patience cfg \<le> plateau_count s'))
     \<and> (\<forall>j. 0 < j \<and> j < (1::nat) \<longrightarrow>
           (\<exists>sj. passes sc C kw cm i j s = Inr sj \<and> plateau_count sj < plateau_patience cfg))"
      using one True le by simp
    then show ?thesis by blast
  next
    case False
    then have loop: "improvement_loop cfg sc C kw cm [i + 1..n] s1 = Inr s'" using rest by simp
    have m: "m = nat (n + 1 - (i + 1))" using Suc.hyps(2) by linarith
    from Suc.hyps(1) [OF m loop] obtain k where
      k: "passes sc C kw cm (i + 1) k s1 = Inr s'" "int k \<le> max 0 (n - (i + 1) + 1)"
        "int k = max 0 (n - (i + 1) + 1) \<or> (0 < k \<and> plateau_patience cfg \<le> plateau_count s')"
        "\<forall>j. 0 < j \<and> j < k \<longrightarrow>
           (\<exists>sj. passes sc C kw cm (i + 1) j s1 = Inr sj \<and> plateau_count sj < plateau_patience cfg)"
      by blast
    have a: "passes sc C kw cm i (Suc k) s = Inr s'" using s1 k(1) by simp
    have b: "int (Suc k) \<le> max 0 (n - i + 1)" using k(2) le by simp
    have c: "int (Suc k) = max 0 (n - i + 1) \<or> (0 < Suc k \<and> plateau_patience cfg \<le> plateau_count s')"
      using k(3) le by auto
    have d: "\<exists>sj. passes sc C kw cm i j s = Inr sj \<and> plateau_count sj < plateau_patience cfg"
      if "0 < j" "j < Suc k" for j
    proof (cases j)
      case 0
      then show ?thesis using that by simp
    next
      case (Suc j')
      show ?thesis
      proof (cases "j' = 0")
        case True
        then show ?thesis using Suc one False by auto
      next
        case nz: False
        then have "0 < j' \<and> j' < k" using that Suc by simp
        then obtain sj where "passes sc C kw cm (i + 1) j' s1 = Inr sj"
          "plateau_count sj < plateau_patience cfg" using k(4) by blast
        then show ?thesis using Suc s1 by simp
      qed
    qed
    show ?thesis using a b c d by blast
  qed
qed

lemma run_unfold:
  assumes "run_optimization_with cfg sc C community ct pk iters = Inr r"
  shows "\<exists>kw content0 report0 s.
     improvement_loop cfg sc C kw community [1..iteration_cap cfg iters]
       (initial_state content0 report0) = Inr s
     \<and> r = finalize s"
  using assms
  by (auto simp: run_optimization_with_def Let_def split: option.splits sum.splits)

lemma initial_state_tracked:
  "best_tracked (initial_state content0 report0) \<and> length (history (initial_state content0 report0)) = 1"
  by (simp add: best_tracked_def initial_state_def)

lemma finalize_fields:
  "history (finalize s) = history s" "best_content (finalize s) = best_content s"
  "best_score (finalize s) = best_score s" "best_iteration (finalize s) = best_iteration s"
  "plateau_count (finalize s) = plateau_count s" "content (finalize s) = content s"
  "files (finalize s) FinalMd = Some (best_content s)"
  "files (finalize s) (VersionMd i) = files s (VersionMd i)"
  by (simp_all add: finalize_def)

lemma run_passes:
  assumes "run_optimization_with cfg sc C community ct pk iters = Inr r"
  shows "\<exists>kw content0 report0 s.
         passes sc C kw community 1 (iterations_run r) (initial_state content0 report0) = Inr s
         \<and> r = finalize s \<and> best_tracked s
         \<and> int (iterations_run r) \<le> max 0 (iteration_cap cfg iters)
         \<and> (int (iterations_run r) = max 0 (iteration_cap cfg iters)
            \<or> (0 < iterations_run r \<and> plateau_patience cfg \<le> plateau_count r))
         \<and> (\<forall>j. 0 < j \<and> j < iterations_run r \<longrightarrow>
              (\<exists>sj. passes sc C kw community 1 j (initial_state content0 report0) = Inr sj
                    \<and> plateau_count sj < plateau_patience cfg))"
proof -
  from run_unfold [OF assms] obtain kw content0 report0 s where
    loop: "improvement_loop cfg sc C kw community [1..iteration_cap cfg iters]
       (initial_state content0 report0) = Inr s" and r: "r = finalize s"
    by blast
  from loop_passes [OF loop] obtain k where
    k: "passes sc C kw community 1 k (initial_state content0 report0) = Inr s"
      "int k \<le> max 0 (iteration_cap cfg iters - 1 + 1)"
      "int k = max 0 (iteration_cap cfg iters - 1 + 1) \<or> (0 < k \<and> plateau_patience cfg \<le> plateau_count s)"
      "\<forall>j. 0 < j \<and> j < k \<longrightarrow>
           (\<exists>sj. passes sc C kw community 1 j (initial_state content0 report0) = Inr sj
                 \<and> plateau_count sj < plateau_patience cfg)"
    by blast
  have t: "best_tracked s \<and> length (history s) = 1 + k"
    using passes_tracked [OF k(1)] initial_state_tracked [of content0 report0] by simp
  then have run: "iterations_run r = k"
    by (simp add: iterations_run_def r finalize_fields)
  show ?thesis
    using k t r run by (auto simp: finalize_fields)
qed

lemma plateau_example:
  assumes "2 \<le> n"
  shows "outcome (run_optimization_with ITERATIONS (scripted_scores [70, 68, 65, 90, 80, 79]) scripted
            (u ''Powell'') (u ''community_guide'') None (Some n)) = Some ([70, 68, 65], 2, 0, 70)"
proof -
  have "2 \<le> iteration_cap ITERATIONS (Some n)"
    using assms by (simp add: iteration_cap_def ITERATIONS_def)
  then have "[1..iteration_cap ITERATIONS (Some n)] = 1 # 2 # [3..iteration_cap ITERATIONS (Some n)]"
    by (simp add: upto.simps)
  then show ?thesis
    by (simp add: run_optimization_with_def CONTENT_TYPES_def scripted_def scripted_scores_def
        initial_state_def improvement_iteration_def Let_def ITERATIONS_def outcome_def
        all_scores_def iterations_run_def finalize_def category_scores_def u_def newline_def)
qed

text \<open>
  C1, as the code has it. A run that returns has made \<open>iterations_run\<close> passes through
  the loop body; that number is at most the iteration cap; either it is the cap, or the
  plateau counter has reached the patience after the last pass; and after no earlier
  pass had the counter reached the patience. For the total scores 70, 68, 65, 90, 80, 79
  with patience 2 and any cap of at least 2, the run stops after the pass that scored
  65 (iteration 2): 68 and 65 are two passes in a row without a new best, and the best
  stays iteration 0 with its score 70.
\<close>

theorem optimization_stops:
  "(run_optimization_with cfg sc C community ct pk iters = Inr r \<longrightarrow>
      (\<exists>kw content0 report0 s.
         passes sc C kw community 1 (iterations_run r) (initial_state content0 report0) = Inr s
         \<and> r = finalize s
         \<and> int (iterations_run r) \<le> max 0 (iteration_cap cfg iters)
         \<and> (int (iterations_run r) = max 0 (iteration_cap cfg iters)
            \<or> (0 < iterations_run r \<and> plateau_patience cfg \<le> plateau_count r))
         \<and> (\<forall>j. 0 < j \<and> j < iterations_run r \<longrightarrow>
              (\<exists>sj. passes sc C kw community 1 j (initial_state content0 report0) = Inr sj
                    \<and> plateau_count sj < plateau_patience cfg))))
   \<and> (2 \<le> n \<longrightarrow>
        outcome (run_optimization_with ITERATIONS (scripted_scores [70, 68, 65, 90, 80, 79]) scripted
            (u ''Powell'') (u ''community_guide'') None (Some n)) = Some ([70, 68, 65], 2, 0, 70))"
proof (intro conjI impI)
  assume "run_optimization_with cfg sc C community ct pk iters = Inr r"
  from run_passes [OF this] show "\<exists>kw content0 report0 s.
         passes sc C kw community 1 (iterations_run r) (initial_state content0 report0) = Inr s
         \<and> r = finalize s
         \<and> int (iterations_run r) \<le> max 0 (iteration_cap cfg iters)
         \<and> (int (iterations_run r) = max 0 (iteration_cap cfg iters)
            \<or> (0 < iterations_run r \<and> plateau_patience cfg \<le> plateau_count r))
         \<and> (\<forall>j. 0 < j \<and> j < iterations_run r \<longrightarrow>
              (\<exists>sj. passes sc C kw community 1 j (initial_state content0 report0) = Inr sj
                    \<and> plateau_count sj < plateau_patience cfg))"
    by blast
next
  assume "2 \<le> n"
  then show "outcome (run_optimization_with ITERATIONS (scripted_scores [70, 68, 65, 90, 80, 79]) scripted
            (u ''Powell'') (u ''community_guide'') None (Some n)) = Some ([70, 68, 65], 2, 0, 70)"
    by (rule plateau_example)
qed

text \<open>
  With the cap 5 the scripted run ends after iteration 2 and not, as the example of the
  specification has it, after iteration 5 with the best at iteration 3.
\<close>

theorem plateau_example_counterexample:
  "outcome (run_optimization_with ITERATIONS (scripted_scores [70, 68, 65, 90, 80, 79]) scripted
      (u ''Powell'') (u ''community_guide'') None (Some 5)) = Some ([70, 68, 65], 2, 0, 70)
   \<and> outcome (run_optimization_with ITERATIONS (scripted_scores [70, 68, 65, 90, 80, 79]) scripted
      (u ''Powell'') (u ''community_guide'') None (Some 5)) \<noteq> Some ([70, 68, 65, 90, 80, 79], 5, 3, 90)
   \<and> plateau_patience ITERATIONS = 2"
  using plateau_example [of 5] by (simp add: ITERATIONS_def)

lemma outcome_Some:
  "outcome x = Some (xs, k, b, v) \<Longrightarrow>
   \<exists>r. x = Inr r \<and> all_scores r = xs \<and> iterations_run r = k \<and> best_iteration r = b \<and> best_score r = v"
  by (cases x) (simp_all add: outcome_def)

theorem optimization_stops_witness:
  "\<exists>r. run_optimization_with ITERATIONS (scripted_scores [70, 68, 65, 90, 80, 79]) scripted
          (u ''Powell'') (u ''community_guide'') None (Some 5) = Inr r
      \<and> all_scores r = [70, 68, 65] \<and> iterations_run r = 2 \<and> best_iteration r = 0
      \<and> int (iterations_run r) < iteration_cap ITERATIONS (Some 5)
      \<and> plateau_patience ITERATIONS \<le> plateau_count r
      \<and> (\<exists>s1. passes (scripted_scores [70, 68, 65, 90, 80, 79]) scripted (u ''living in {community} Ohio'')
                  (u ''Powell'') 1 1 (initial_state (draft 0) 
                     \<lparr> total_score = 70, max_possible = 100, percentage = 70, details = [], iteration = 0 \<rparr>) = Inr s1
                \<and> plateau_count s1 < plateau_patience ITERATIONS)"
proof -
  have "outcome (run_optimization_with ITERATIONS (scripted_scores [70, 68, 65, 90, 80, 79]) scripted
            (u ''Powell'') (u ''community_guide'') None (Some 5)) = Some ([70, 68, 65], 2, 0, 70)"
    using optimization_stops [of _ _ _ _ _ _ _ _ 5] by simp
  from outcome_Some [OF this] obtain r where
    r: "run_optimization_with ITERATIONS (scripted_scores [70, 68, 65, 90, 80, 79]) scripted
          (u ''Powell'') (u ''community_guide'') None (Some 5) = Inr r"
      "all_scores r = [70, 68, 65]" "iterations_run r = 2" "best_iteration r = 0"
    by blast
  have cap: "iteration_cap ITERATIONS (Some 5) = 5"
    by (simp add: iteration_cap_def ITERATIONS_def)
  have one: "\<exists>s1. passes (scripted_scores [70, 68, 65, 90, 80, 79]) scripted (u ''living in {community} Ohio'')
                  (u ''Powell'') 1 1 (initial_state (draft 0) 
                     \<lparr> total_score = 70, max_possible = 100, percentage = 70, details = [], iteration = 0 \<rparr>) = Inr s1
                \<and> plateau_count s1 < plateau_patience ITERATIONS"
    by (simp add: scripted_def scripted_scores_def initial_state_def improvement_iteration_def
        Let_def ITERATIONS_def)
  show ?thesis
    using optimization_stops [of ITERATIONS "scripted_scores [70, 68, 65, 90, 80, 79]" scripted
        "(u ''Powell'')" "(u ''community_guide'')" None "Some 5" r 5] r cap one
    by auto
qed

lemma tracked_max:
  assumes "best_tracked s"
  shows "best_score s = Max (set (all_scores s))"
proof -
  have le: "\<And>y. y \<in> set (all_scores s) \<Longrightarrow> y \<le> best_score s"
    using assms by (auto simp: best_tracked_def all_scores_def in_set_conv_nth)
  have "history s ! nat (best_iteration s) \<in> set (history s)"
    using assms by (simp add: best_tracked_def)
  then have "rec_score (history s ! nat (best_iteration s)) \<in> rec_score ` set (history s)"
    by (rule imageI)
  then have "best_score s \<in> set (all_scores s)"
    using assms by (simp add: best_tracked_def all_scores_def)
  then have "Max (set (all_scores s)) = best_score s"
    using le by (intro Max_eqI) simp_all
  then show ?thesis by simp
qed

text \<open>
  C4. A pass replaces the tracked best (document, score, iteration index) only when the
  new total score is strictly greater than the best score, and then sets the plateau
  counter to 0; otherwise it leaves the best alone and adds 1 to the counter. When the
  run ends, \<open>FINAL.md\<close> holds the tracked best document, which is the document of
  iteration \<open>best_iteration\<close>; its score is the highest of all scores of the run and
  no earlier iteration reached it.
\<close>

theorem best_tracking:
  "(improvement_iteration sc C kw cm i s = Inr s' \<longrightarrow>
      (if total_score (report s') > best_score s
       then best_content s' = content s' \<and> best_score s' = total_score (report s')
            \<and> best_iteration s' = i \<and> plateau_count s' = 0
       else best_content s' = best_content s \<and> best_score s' = best_score s
            \<and> best_iteration s' = best_iteration s \<and> plateau_count s' = plateau_count s + 1))
   \<and> (run_optimization_with cfg sc C community ct pk iters = Inr r \<longrightarrow>
        files r FinalMd = Some (best_content r)
        \<and> files r (VersionMd (best_iteration r)) = Some (best_content r)
        \<and> 0 \<le> best_iteration r \<and> nat (best_iteration r) < length (all_scores r)
        \<and> all_scores r ! nat (best_iteration r) = best_score r
        \<and> best_score r = Max (set (all_scores r))
        \<and> (\<forall>j < nat (best_iteration r). all_scores r ! j < best_score r))"
proof (intro conjI impI)
  assume "improvement_iteration sc C kw cm i s = Inr s'"
  from improvement_iteration_effect [OF this]
  show "if total_score (report s') > best_score s
       then best_content s' = content s' \<and> best_score s' = total_score (report s')
            \<and> best_iteration s' = i \<and> plateau_count s' = 0
       else best_content s' = best_content s \<and> best_score s' = best_score s
            \<and> best_iteration s' = best_iteration s \<and> plateau_count s' = plateau_count s + 1"
    by simp
next
  assume "run_optimization_with cfg sc C community ct pk iters = Inr r"
  from run_passes [OF this] obtain s where r: "r = finalize s" and t: "best_tracked s"
    by blast
  have same: "all_scores r = all_scores s"
    by (simp add: all_scores_def r finalize_fields)
  show "files r FinalMd = Some (best_content r)"
    by (simp add: r finalize_fields)
  show "files r (VersionMd (best_iteration r)) = Some (best_content r)"
    using t by (simp add: r finalize_fields best_tracked_def)
  show "0 \<le> best_iteration r"
    using t by (simp add: r finalize_fields best_tracked_def)
  show "nat (best_iteration r) < length (all_scores r)"
    using t by (simp add: same all_scores_def r finalize_fields best_tracked_def)
  show "all_scores r ! nat (best_iteration r) = best_score r"
    using t by (simp add: same all_scores_def r finalize_fields best_tracked_def)
  have "best_score r = best_score s"
    by (simp add: r finalize_fields)
  then show "best_score r = Max (set (all_scores r))"
    using tracked_max [OF t] same by simp
  show "\<forall>j < nat (best_iteration r). all_scores r ! j < best_score r"
    using t by (simp add: same all_scores_def r finalize_fields best_tracked_def)
qed

lemma regressing_run:
  "\<exists>r. run_optimization_with ITERATIONS (scripted_scores [70, 90, 80, 79]) scripted
          (u ''Powell'') (u ''community_guide'') None (Some 5) = Inr r
      \<and> all_scores r = [70, 90, 80, 79] \<and> best_iteration r = 1 \<and> best_score r = 90
      \<and> best_content r = draft 1 \<and> content r = draft 3 \<and> files r FinalMd = Some (draft 1)"
  by (simp add: run_optimization_with_def CONTENT_TYPES_def scripted_def scripted_scores_def
      initial_state_def improvement_iteration_def Let_def ITERATIONS_def iteration_cap_def
      all_scores_def finalize_def category_scores_def upto.simps u_def newline_def)

theorem best_tracking_witness:
  "(\<exists>s'. improvement_iteration (scripted_scores [70, 90, 80, 79]) scripted (u ''living in Powell Ohio'')
            (u ''Powell'') 1 (initial_state (draft 0)
               \<lparr> total_score = 70, max_possible = 100, percentage = 70, details = [], iteration = 0 \<rparr>) = Inr s'
          \<and> best_content s' = draft 1 \<and> best_score s' = 90 \<and> best_iteration s' = 1
          \<and> plateau_count s' = 0)
   \<and> (\<exists>s'. improvement_iteration (scripted_scores [70, 68]) scripted (u ''living in Powell Ohio'')
            (u ''Powell'') 1 (initial_state (draft 0)
               \<lparr> total_score = 70, max_possible = 100, percentage = 70, details = [], iteration = 0 \<rparr>) = Inr s'
          \<and> best_content s' = draft 0 \<and> best_score s' = 70 \<and> best_iteration s' = 0
          \<and> plateau_count s' = 1)
   \<and> (\<exists>r. run_optimization_with ITERATIONS (scripted_scores [70, 90, 80, 79]) scripted
          (u ''Powell'') (u ''community_guide'') None (Some 5) = Inr r
        \<and> all_scores r = [70, 90, 80, 79] \<and> best_iteration r = 1
        \<and> content r = draft 3 \<and> files r FinalMd = Some (draft 1)
        \<and> files r (VersionMd 1) = Some (draft 1)
        \<and> best_score r = Max (set (all_scores r)))"
proof -
  let ?s0 = "initial_state (draft 0)
     \<lparr> total_score = 70, max_possible = 100, percentage = 70, details = [], iteration = 0 \<rparr>"
  obtain s1 where s1: "improvement_iteration (scripted_scores [70, 90, 80, 79]) scripted
      (u ''living in Powell Ohio'') (u ''Powell'') 1 ?s0 = Inr s1"
    and c1: "content s1 = draft 1" "total_score (report s1) = 90"
    by (simp add: improvement_iteration_def scripted_def scripted_scores_def initial_state_def Let_def)
  obtain s2 where s2: "improvement_iteration (scripted_scores [70, 68]) scripted
      (u ''living in Powell Ohio'') (u ''Powell'') 1 ?s0 = Inr s2"
    and c2: "total_score (report s2) = 68"
    by (simp add: improvement_iteration_def scripted_def scripted_scores_def initial_state_def Let_def)
  have b0: "best_score ?s0 = 70" "best_content ?s0 = draft 0" "best_iteration ?s0 = 0"
    "plateau_count ?s0 = 0"
    by (simp_all add: initial_state_def)
  obtain r where r: "run_optimization_with ITERATIONS (scripted_scores [70, 90, 80, 79]) scripted
          (u ''Powell'') (u ''community_guide'') None (Some 5) = Inr r"
      "all_scores r = [70, 90, 80, 79]" "best_iteration r = 1" "content r = draft 3"
      "best_content r = draft 1"
    using regressing_run by blast
  show ?thesis
    using best_tracking [of "scripted_scores [70, 90, 80, 79]" scripted "(u ''living in Powell Ohio'')"
        "(u ''Powell'')" 1 ?s0 s1 ITERATIONS "(u ''Powell'')" "(u ''community_guide'')" None "Some 5" r]
      best_tracking [of "scripted_scores [70, 68]" scripted "(u ''living in Powell Ohio'')"
        "(u ''Powell'')" 1 ?s0 s2]
      s1 c1 s2 c2 b0 r
    by simp
qed

text \<open>
  C10, as the code has it. Asked for \<open>n\<close> iterations, a run makes at most
  \<open>max 0 (min n max_count)\<close> of them, with \<open>max_count = 15\<close>: a larger request is
  clamped, neither honoured nor refused, and a negative one makes no iteration. For
  \<open>n \<ge> 0\<close> the bound is \<open>min n max_count\<close>. This holds with any scorer, and so
  for \<open>run_optimization\<close> itself.
\<close>

theorem iteration_count_clamped:
  "run_optimization_with ITERATIONS sc C community ct pk (Some n) = Inr r
     \<or> run_optimization L C community ct pk (Some n) = Inr r \<Longrightarrow>
   int (iterations_run r) \<le> max 0 (min n (max_count ITERATIONS))
   \<and> max_count ITERATIONS = 15
   \<and> (0 \<le> n \<longrightarrow> int (iterations_run r) \<le> min n 15)
   \<and> (n \<le> 0 \<longrightarrow> iterations_run r = 0)"
proof -
  assume "run_optimization_with ITERATIONS sc C community ct pk (Some n) = Inr r
     \<or> run_optimization L C community ct pk (Some n) = Inr r"
  then obtain sc' where "run_optimization_with ITERATIONS sc' C community ct pk (Some n) = Inr r"
    unfolding run_optimization_def by blast
  from run_passes [OF this]
  have "int (iterations_run r) \<le> max 0 (iteration_cap ITERATIONS (Some n))" by blast
  then show ?thesis by (auto simp: iteration_cap_def ITERATIONS_def)
qed

lemma rising_run:
  "\<exists>r. run_optimization_with ITERATIONS
          (scripted_scores [50, 51, 52, 53, 54, 55, 56, 57, 58, 59, 60, 61, 62, 63, 64, 65, 66, 67])
          scripted (u ''Powell'') (u ''community_guide'') None (Some 20) = Inr r
      \<and> iterations_run r = 15 \<and> best_iteration r = 15 \<and> plateau_count r = 0"
  by (simp add: run_optimization_with_def CONTENT_TYPES_def scripted_def scripted_scores_def
      initial_state_def improvement_iteration_def Let_def ITERATIONS_def iteration_cap_def
      iterations_run_def finalize_def category_scores_def upto.simps u_def newline_def)

lemma negative_request_run:
  "\<exists>r. run_optimization_with ITERATIONS (scripted_scores [50, 51]) scripted
          (u ''Powell'') (u ''community_guide'') None (Some (- 3)) = Inr r
      \<and> iterations_run r = 0"
  by (simp add: run_optimization_with_def CONTENT_TYPES_def scripted_def scripted_scores_def
      initial_state_def Let_def ITERATIONS_def iteration_cap_def
      iterations_run_def finalize_def category_scores_def upto.simps u_def newline_def)

lemma silent_run:
  "\<exists>r. run_optimization re_no_match silent (u ''Powell'') (u ''community_guide'')
          (Some (u ''living in Powell Ohio'')) (Some 20) = Inr r
      \<and> all_scores r = [31 / 4, 31 / 4, 31 / 4] \<and> iterations_run r = 2 \<and> best_iteration r = 0"
proof -
  from empty_document_total [of 0] obtain r0 where
    r0: "score_post re_no_match [] (u ''living in Powell Ohio'') (u ''Powell'') 0 = Inr r0"
      "total_score r0 = 31 / 4"
    by (elim exE conjE)
  from empty_document_total [of 1] obtain r1 where
    r1: "score_post re_no_match [] (u ''living in Powell Ohio'') (u ''Powell'') 1 = Inr r1"
      "total_score r1 = 31 / 4"
    by (elim exE conjE)
  from empty_document_total [of 2] obtain r2 where
    r2: "score_post re_no_match [] (u ''living in Powell Ohio'') (u ''Powell'') 2 = Inr r2"
      "total_score r2 = 31 / 4"
    by (elim exE conjE)
  have "[1..iteration_cap ITERATIONS (Some 20)] = 1 # 2 # [3..15]"
    by (simp add: iteration_cap_def ITERATIONS_def upto.simps)
  then show ?thesis
    using r0 r1 r2
    by (simp add: run_optimization_def run_optimization_with_def CONTENT_TYPES_def silent_def
        initial_state_def improvement_iteration_def Let_def ITERATIONS_def
        all_scores_def iterations_run_def finalize_def u_def newline_def)
qed

lemma silent_negative_run:
  "outcome (run_optimization re_no_match silent (u ''Powell'') (u ''community_guide'')
          (Some (u ''living in Powell Ohio'')) (Some (- 3))) = Some ([31 / 4], 0, 0, 31 / 4)"
proof -
  from empty_document_total [of 0] obtain r0 where
    r0: "score_post re_no_match [] (u ''living in Powell Ohio'') (u ''Powell'') 0 = Inr r0"
      "total_score r0 = 31 / 4"
    by (elim exE conjE)
  have "[1..iteration_cap ITERATIONS (Some (- 3))] = []"
    by (simp add: iteration_cap_def ITERATIONS_def)
  then show ?thesis
    using r0
    by (simp add: run_optimization_def run_optimization_with_def CONTENT_TYPES_def silent_def
        initial_state_def Let_def ITERATIONS_def outcome_def
        all_scores_def iterations_run_def finalize_def u_def newline_def)
qed

text \<open>
  Asked for \<open>-3\<close> iterations, which the command line accepts, the run scores the first
  draft and makes no revision: 0 iterations, more than \<open>min (-3) 15 = -3\<close>.
\<close>

theorem negative_request_counterexample:
  "outcome (run_optimization re_no_match silent (u ''Powell'') (u ''community_guide'')
          (Some (u ''living in Powell Ohio'')) (Some (- 3))) = Some ([31 / 4], 0, 0, 31 / 4)
   \<and> exceeds_request (run_optimization re_no_match silent (u ''Powell'') (u ''community_guide'')
          (Some (u ''living in Powell Ohio'')) (Some (- 3))) (- 3)
   \<and> min (- 3) (max_count ITERATIONS) = - 3"
proof -
  note o = silent_negative_run
  then obtain r where r: "run_optimization re_no_match silent (u ''Powell'') (u ''community_guide'')
          (Some (u ''living in Powell Ohio'')) (Some (- 3)) = Inr r" "iterations_run r = 0"
    by (auto simp: outcome_def split: sum.splits)
  show ?thesis
    using o r by (simp add: exceeds_request_def ITERATIONS_def)
qed

theorem iteration_count_clamped_witness:
  "(\<exists>r. run_optimization_with ITERATIONS
          (scripted_scores [50, 51, 52, 53, 54, 55, 56, 57, 58, 59, 60, 61, 62, 63, 64, 65, 66, 67])
          scripted (u ''Powell'') (u ''community_guide'') None (Some 20) = Inr r
      \<and> iterations_run r = 15 \<and> int (iterations_run r) \<le> max 0 (min 20 (max_count ITERATIONS)))
   \<and> (\<exists>r. run_optimization_with ITERATIONS (scripted_scores [50, 51]) scripted
          (u ''Powell'') (u ''community_guide'') None (Some (- 3)) = Inr r
      \<and> iterations_run r = 0 \<and> int (iterations_run r) \<le> max 0 (min (- 3) (max_count ITERATIONS)))
   \<and> (\<exists>r. run_optimization re_no_match silent (u ''Powell'') (u ''community_guide'')
          (Some (u ''living in Powell Ohio'')) (Some 20) = Inr r
      \<and> iterations_run r = 2 \<and> int (iterations_run r) \<le> max 0 (min 20 (max_count ITERATIONS)))"
proof -
  obtain r where r: "run_optimization_with ITERATIONS
          (scripted_scores [50, 51, 52, 53, 54, 55, 56, 57, 58, 59, 60, 61, 62, 63, 64, 65, 66, 67])
          scripted (u ''Powell'') (u ''community_guide'') None (Some 20) = Inr r" "iterations_run r = 15"
    using rising_run by blast
  obtain r' where r': "run_optimization_with ITERATIONS (scripted_scores [50, 51]) scripted
          (u ''Powell'') (u ''community_guide'') None (Some (- 3)) = Inr r'" "iterations_run r' = 0"
    using negative_request_run by blast
  obtain r3 where r3: "run_optimization re_no_match silent (u ''Powell'') (u ''community_guide'')
          (Some (u ''living in Powell Ohio'')) (Some 20) = Inr r3" "iterations_run r3 = 2"
    using silent_run by blast
  show ?thesis
    using iteration_count_clamped [OF disjI1, OF r(1)] iteration_count_clamped [OF disjI1, OF r'(1)]
      iteration_count_clamped [OF disjI2, OF r3(1)] r r' r3
    by simp
qed

end
